theory Spec2Isabelle
  imports Complex_Main
begin

section \<open>Values of the service boundary\<close>

text \<open>
  The routes of \<^verbatim>\<open>index.js\<close> receive a JSON body and look at its fields with
  JavaScript operators. A JavaScript number is an IEEE double; the model writes a finite
  double as the rational value of its decimal text, the shortest decimal that reads back
  as the same double: this is what \<^verbatim>\<open>toString\<close> prints and what the driver sends
  to the store. The model performs no arithmetic on a number: the routes only test it
  for truthiness, for \<^verbatim>\<open>NaN\<close> and against zero, and pass it on.
\<close>

datatype jsnum = NaN | PosInf | NegInf | Fin rat

datatype jsval =
    JUndefined
  | JNull
  | JBool bool
  | JNum jsnum
  | JStr string
  | JArr "jsval list"
  | JObj "(string \<times> jsval) list"

text \<open>\<^verbatim>\<open>!v\<close> is \<open>\<not> truthy v\<close>: undefined, null, false, 0, -0, NaN and the empty
  string are falsy, everything else (also an array or an object) is truthy.\<close>

fun truthy :: "jsval \<Rightarrow> bool" where
  "truthy JUndefined = False"
| "truthy JNull = False"
| "truthy (JBool b) = b"
| "truthy (JNum n) = (n \<noteq> NaN \<and> n \<noteq> Fin 0)"
| "truthy (JStr s) = (s \<noteq> [])"
| "truthy (JArr xs) = True"
| "truthy (JObj kvs) = True"

text \<open>\<^verbatim>\<open>Number.isNaN(n)\<close> and \<^verbatim>\<open>n <= 0\<close> (false when \<^verbatim>\<open>n\<close> is NaN).\<close>

definition isNaN :: "jsnum \<Rightarrow> bool" where
  "isNaN n = (n = NaN)"

fun le_zero :: "jsnum \<Rightarrow> bool" where
  "le_zero NaN = False"
| "le_zero PosInf = False"
| "le_zero NegInf = True"
| "le_zero (Fin q) = (q \<le> 0)"

text \<open>\<^verbatim>\<open>description || null\<close>: a falsy description is stored as NULL.\<close>

definition or_null :: "jsval \<Rightarrow> jsval option" where
  "or_null v = (if truthy v then Some v else None)"

text \<open>The destructured request body: a field that the JSON object lacks is
  \<open>JUndefined\<close>.\<close>

record body =
  accountId :: jsval
  sourceAccountId :: jsval
  destinationAccountId :: jsval
  amount :: jsval
  currency :: jsval
  description :: jsval

text \<open>A response is a status code and the fields of the JSON object sent with it.
  \<open>RFixed2 n\<close> stands for the text \<^verbatim>\<open>n.toFixed(2)\<close>, \<open>RNumeric c\<close> for the text
  of the NUMERIC value of \<open>c\<close> hundredths, and \<open>RJs v\<close> for a request value echoed
  back.\<close>

datatype rval = RNum int | RStr string | RFixed2 jsnum | RNumeric int | RJs jsval

record response =
  status_code :: nat
  json :: "(string \<times> rval) list"

definition message :: "nat \<Rightarrow> string \<Rightarrow> response" where
  "message c m = \<lparr>status_code = c, json = [(''message'', RStr m)]\<rparr>"

section \<open>The relational store\<close>

text \<open>
  The three relations of the schema (README, section 4.4). Amounts are
  \<^verbatim>\<open>NUMERIC(14,2)\<close> and are kept in hundredths; \<^verbatim>\<open>created_at\<close> is left out.
  No relation has a balance column.
\<close>

record account =
  acc_id :: int
  user_id :: jsval
  acc_type :: jsval
  acc_currency :: jsval
  acc_status :: string

record txn =
  tx_id :: int
  tx_type :: string
  tx_amount :: int
  tx_currency :: jsval
  source_account_id :: "int option"
  destination_account_id :: "int option"
  tx_status :: string
  tx_description :: "jsval option"

record entry =
  entry_id :: int
  transaction_id :: int
  account_id :: int
  entry_type :: string
  entry_amount :: int

record store =
  accounts :: "account list"
  transactions :: "txn list"
  ledger_entries :: "entry list"

text \<open>The statements the routes send, with their parameters.\<close>

datatype stmt =
    Begin
  | Commit
  | Rollback
  | Select_account_id int
  | Select_account_ids "int list"
  | Select_account int
  | Insert_transaction string jsnum jsval "int option" "int option" "jsval option"
  | Insert_ledger_entries "(int \<times> int \<times> string \<times> jsnum) list"
  | Select_balance int
  | Update_completed int

text \<open>
  What lies outside \<^verbatim>\<open>index.js\<close> is a parameter of the model: the built-ins
  \<^verbatim>\<open>parseInt(v, 10)\<close> (NaN is \<open>None\<close>, any other result is an integer) and
  \<^verbatim>\<open>parseFloat(v)\<close>, the value in hundredths that a NUMERIC(14,2) column keeps for a
  number sent to it, and whether the store raises an error on a statement (a value out
  of range for its column, a lost connection).
\<close>

record env =
  parseInt :: "jsval \<Rightarrow> int option"
  parseFloat :: "jsval \<Rightarrow> jsnum"
  to_numeric :: "jsnum \<Rightarrow> int"
  rejects :: "stmt \<Rightarrow> bool"

text \<open>
  The database: the committed relations, the relations as the open transaction of the
  pooled client sees them (\<open>None\<close> when no transaction is open), the two SERIAL
  sequences, and the statements sent so far. BEGIN opens a transaction on the committed
  relations, COMMIT makes its relations the committed ones and ROLLBACK drops them. A
  value drawn from a sequence is not given back by ROLLBACK.
\<close>

record db =
  tables :: store
  pending :: "store option"
  transactions_id_seq :: int
  ledger_entries_id_seq :: int
  sent :: "stmt list"

definition view :: "db \<Rightarrow> store" where
  "view d = (case pending d of None \<Rightarrow> tables d | Some w \<Rightarrow> w)"

definition write_store :: "(store \<Rightarrow> store) \<Rightarrow> db \<Rightarrow> db" where
  "write_store f d = (case pending d of
      None \<Rightarrow> d\<lparr>tables := f (tables d)\<rparr>
    | Some w \<Rightarrow> d\<lparr>pending := Some (f w)\<rparr>)"

fun mk_entries :: "env \<Rightarrow> int \<Rightarrow> (int \<times> int \<times> string \<times> jsnum) list \<Rightarrow> entry list" where
  "mk_entries E k [] = []"
| "mk_entries E k ((t, a, ty, amt) # rows) =
     \<lparr>entry_id = k, transaction_id = t, account_id = a, entry_type = ty,
      entry_amount = to_numeric E amt\<rparr> # mk_entries E (k + 1) rows"

definition set_completed :: "int \<Rightarrow> txn \<Rightarrow> txn" where
  "set_completed i t = (if tx_id t = i then t\<lparr>tx_status := ''completed''\<rparr> else t)"

text \<open>The effect of a statement that the store accepts.\<close>

fun exec :: "env \<Rightarrow> stmt \<Rightarrow> db \<Rightarrow> db" where
  "exec E Begin d = d\<lparr>pending := Some (tables d)\<rparr>"
| "exec E Commit d = (case pending d of
      None \<Rightarrow> d
    | Some w \<Rightarrow> d\<lparr>tables := w, pending := None\<rparr>)"
| "exec E Rollback d = d\<lparr>pending := None\<rparr>"
| "exec E (Insert_transaction ty amt cur src dst descr) d =
     write_store (\<lambda>s. s\<lparr>transactions := transactions s @
        [\<lparr>tx_id = transactions_id_seq d, tx_type = ty, tx_amount = to_numeric E amt,
          tx_currency = cur, source_account_id = src, destination_account_id = dst,
          tx_status = ''pending'', tx_description = descr\<rparr>]\<rparr>)
       (d\<lparr>transactions_id_seq := transactions_id_seq d + 1\<rparr>)"
| "exec E (Insert_ledger_entries rows) d =
     write_store (\<lambda>s. s\<lparr>ledger_entries := ledger_entries s @
        mk_entries E (ledger_entries_id_seq d) rows\<rparr>)
       (d\<lparr>ledger_entries_id_seq := ledger_entries_id_seq d + int (length rows)\<rparr>)"
| "exec E (Update_completed i) d =
     write_store (\<lambda>s. s\<lparr>transactions := map (set_completed i) (transactions s)\<rparr>) d"
| "exec E (Select_account_id i) d = d"
| "exec E (Select_account_ids ids) d = d"
| "exec E (Select_account i) d = d"
| "exec E (Select_balance i) d = d"

text \<open>\<^verbatim>\<open>await client.query(...)\<close>: the statement is sent; the store raises
  (\<open>Inl\<close>, with the database as it is then) or carries it out.\<close>

definition query :: "env \<Rightarrow> stmt \<Rightarrow> db \<Rightarrow> db + db" where
  "query E s d =
     (let d' = d\<lparr>sent := sent d @ [s]\<rparr>
      in if rejects E s then Inl d' else Inr (exec E s d'))"

text \<open>The rows the SELECT statements return.\<close>

definition select_account_id :: "int \<Rightarrow> store \<Rightarrow> int list" where
  "select_account_id i s = map acc_id (filter (\<lambda>a. acc_id a = i) (accounts s))"

definition select_account_ids :: "int list \<Rightarrow> store \<Rightarrow> int list" where
  "select_account_ids ids s = map acc_id (filter (\<lambda>a. acc_id a \<in> set ids) (accounts s))"

definition select_account :: "int \<Rightarrow> store \<Rightarrow> account list" where
  "select_account i s = filter (\<lambda>a. acc_id a = i) (accounts s)"

text \<open>
  \<^verbatim>\<open>COALESCE(SUM(CASE WHEN entry_type = 'credit' THEN amount
  WHEN entry_type = 'debit' THEN -amount ELSE 0 END), 0)\<close> over the rows of one account.
  SUM over no row is NULL.
\<close>

definition signed_amount :: "entry \<Rightarrow> int" where
  "signed_amount e =
     (if entry_type e = ''credit'' then entry_amount e
      else if entry_type e = ''debit'' then - entry_amount e
      else 0)"

definition sql_sum :: "int list \<Rightarrow> int option" where
  "sql_sum xs = (if xs = [] then None else Some (sum_list xs))"

definition coalesce :: "int option \<Rightarrow> int \<Rightarrow> int" where
  "coalesce v x = (case v of None \<Rightarrow> x | Some y \<Rightarrow> y)"

definition entries_of :: "store \<Rightarrow> int \<Rightarrow> entry list" where
  "entries_of s a = filter (\<lambda>e. account_id e = a) (ledger_entries s)"

definition select_balance :: "int \<Rightarrow> store \<Rightarrow> int" where
  "select_balance a s = coalesce (sql_sum (map signed_amount (entries_of s a))) 0"

section \<open>The routes\<close>

text \<open>
  Each money route takes a client from the pool, validates the body, and then runs its
  statements on that client between BEGIN and COMMIT or ROLLBACK. Taking and releasing
  the client sends no statement and is not modelled.
\<close>

text \<open>The \<^verbatim>\<open>catch\<close> block of the three money routes: ROLLBACK is sent, an error of
  the ROLLBACK itself is only logged, and the answer is 500.\<close>

definition catch_rollback :: "env \<Rightarrow> db \<Rightarrow> response \<times> db" where
  "catch_rollback E d =
     (message 500 ''Internal server error'',
      (case query E Rollback d of Inl d' \<Rightarrow> d' | Inr d' \<Rightarrow> d'))"

definition and_then :: "db + db \<Rightarrow> (db \<Rightarrow> db + 'a) \<Rightarrow> db + 'a" where
  "and_then r k = (case r of Inl d \<Rightarrow> Inl d | Inr d \<Rightarrow> k d)"

text \<open>\<^verbatim>\<open>app.post('/deposits')\<close>, steps 2 to 6 inside \<^verbatim>\<open>try\<close>.\<close>

definition deposit_try ::
  "env \<Rightarrow> int \<Rightarrow> jsnum \<Rightarrow> body \<Rightarrow> db \<Rightarrow> db + (response \<times> db)" where
  "deposit_try E accId numericAmount b d0 =
     and_then (query E Begin d0) (\<lambda>d1.
     and_then (query E (Select_account_id accId) d1) (\<lambda>d2.
       if select_account_id accId (view d2) = [] then
         and_then (query E Rollback d2) (\<lambda>d3.
           Inr (message 404 ''Account not found'', d3))
       else
         let transactionId = transactions_id_seq d2 in
         and_then (query E (Insert_transaction ''deposit'' numericAmount (currency b)
                     None (Some accId) (or_null (description b))) d2) (\<lambda>d3.
         and_then (query E (Insert_ledger_entries
                     [(transactionId, accId, ''credit'', numericAmount)]) d3) (\<lambda>d4.
         and_then (query E (Update_completed transactionId) d4) (\<lambda>d5.
         and_then (query E Commit d5) (\<lambda>d6.
           Inr (\<lparr>status_code = 201,
                 json = [(''transactionId'', RNum transactionId),
                         (''status'', RStr ''completed''),
                         (''accountId'', RNum accId),
                         (''amount'', RFixed2 numericAmount),
                         (''currency'', RJs (currency b))]\<rparr>, d6)))))))"

definition post_deposits :: "env \<Rightarrow> body \<Rightarrow> db \<Rightarrow> response \<times> db" where
  "post_deposits E b d =
     (if \<not> truthy (accountId b) \<or> \<not> truthy (amount b) \<or> \<not> truthy (currency b) then
        (message 400 ''accountId, amount, and currency are required'', d)
      else
        let accId = parseInt E (accountId b);
            numericAmount = parseFloat E (amount b)
        in if accId = None \<or> isNaN numericAmount \<or> le_zero numericAmount then
             (message 400 ''Invalid accountId or amount'', d)
           else (case deposit_try E (the accId) numericAmount b d of
                   Inl d' \<Rightarrow> catch_rollback E d'
                 | Inr r \<Rightarrow> r))"

text \<open>
  \<^verbatim>\<open>app.post('/withdrawals')\<close>. \<^verbatim>\<open>newBalance\<close> is \<^verbatim>\<open>parseFloat\<close> of the text
  of the NUMERIC sum; a NUMERIC with two fractional digits that is not zero is at least
  0.01 in magnitude, so the double is negative exactly when the sum is, and the test
  \<^verbatim>\<open>newBalance < 0\<close> is made on the sum.
\<close>

definition withdrawal_try ::
  "env \<Rightarrow> int \<Rightarrow> jsnum \<Rightarrow> body \<Rightarrow> db \<Rightarrow> db + (response \<times> db)" where
  "withdrawal_try E accId numericAmount b d0 =
     and_then (query E Begin d0) (\<lambda>d1.
     and_then (query E (Select_account_id accId) d1) (\<lambda>d2.
       if select_account_id accId (view d2) = [] then
         and_then (query E Rollback d2) (\<lambda>d3.
           Inr (message 404 ''Account not found'', d3))
       else
         let transactionId = transactions_id_seq d2 in
         and_then (query E (Insert_transaction ''withdrawal'' numericAmount (currency b)
                     (Some accId) None (or_null (description b))) d2) (\<lambda>d3.
         and_then (query E (Insert_ledger_entries
                     [(transactionId, accId, ''debit'', numericAmount)]) d3) (\<lambda>d4.
         and_then (query E (Select_balance accId) d4) (\<lambda>d5.
           let newBalance = select_balance accId (view d5) in
           if newBalance < 0 then
             and_then (query E Rollback d5) (\<lambda>d6.
               Inr (message 422 ''Insufficient funds'', d6))
           else
             and_then (query E (Update_completed transactionId) d5) (\<lambda>d6.
             and_then (query E Commit d6) (\<lambda>d7.
               Inr (\<lparr>status_code = 201,
                     json = [(''transactionId'', RNum transactionId),
                             (''status'', RStr ''completed''),
                             (''accountId'', RNum accId),
                             (''amount'', RFixed2 numericAmount),
                             (''currency'', RJs (currency b))]\<rparr>, d7))))))))"

definition post_withdrawals :: "env \<Rightarrow> body \<Rightarrow> db \<Rightarrow> response \<times> db" where
  "post_withdrawals E b d =
     (if \<not> truthy (accountId b) \<or> \<not> truthy (amount b) \<or> \<not> truthy (currency b) then
        (message 400 ''accountId, amount, and currency are required'', d)
      else
        let accId = parseInt E (accountId b);
            numericAmount = parseFloat E (amount b)
        in if accId = None \<or> isNaN numericAmount \<or> le_zero numericAmount then
             (message 400 ''Invalid accountId or amount'', d)
           else (case withdrawal_try E (the accId) numericAmount b d of
                   Inl d' \<Rightarrow> catch_rollback E d'
                 | Inr r \<Rightarrow> r))"

text \<open>\<^verbatim>\<open>app.post('/transfers')\<close>: one INSERT writes both legs.\<close>

definition transfer_try ::
  "env \<Rightarrow> int \<Rightarrow> int \<Rightarrow> jsnum \<Rightarrow> body \<Rightarrow> db \<Rightarrow> db + (response \<times> db)" where
  "transfer_try E sourceId destId numericAmount b d0 =
     and_then (query E Begin d0) (\<lambda>d1.
     and_then (query E (Select_account_ids [sourceId, destId]) d1) (\<lambda>d2.
       if length (select_account_ids [sourceId, destId] (view d2)) \<noteq> 2 then
         and_then (query E Rollback d2) (\<lambda>d3.
           Inr (message 404 ''One or both accounts not found'', d3))
       else
         let transactionId = transactions_id_seq d2 in
         and_then (query E (Insert_transaction ''transfer'' numericAmount (currency b)
                     (Some sourceId) (Some destId) (or_null (description b))) d2) (\<lambda>d3.
         and_then (query E (Insert_ledger_entries
                     [(transactionId, sourceId, ''debit'', numericAmount),
                      (transactionId, destId, ''credit'', numericAmount)]) d3) (\<lambda>d4.
         and_then (query E (Select_balance sourceId) d4) (\<lambda>d5.
           let newBalance = select_balance sourceId (view d5) in
           if newBalance < 0 then
             and_then (query E Rollback d5) (\<lambda>d6.
               Inr (message 422 ''Insufficient funds'', d6))
           else
             and_then (query E (Update_completed transactionId) d5) (\<lambda>d6.
             and_then (query E Commit d6) (\<lambda>d7.
               Inr (\<lparr>status_code = 201,
                     json = [(''transactionId'', RNum transactionId),
                             (''status'', RStr ''completed''),
                             (''sourceAccountId'', RNum sourceId),
                             (''destinationAccountId'', RNum destId),
                             (''amount'', RFixed2 numericAmount),
                             (''currency'', RJs (currency b))]\<rparr>, d7))))))))"

definition post_transfers :: "env \<Rightarrow> body \<Rightarrow> db \<Rightarrow> response \<times> db" where
  "post_transfers E b d =
     (if \<not> truthy (sourceAccountId b) \<or> \<not> truthy (destinationAccountId b) \<or>
         \<not> truthy (amount b) \<or> \<not> truthy (currency b) then
        (message 400
           ''sourceAccountId, destinationAccountId, amount, and currency are required'', d)
      else
        let sourceId = parseInt E (sourceAccountId b);
            destId = parseInt E (destinationAccountId b);
            numericAmount = parseFloat E (amount b)
        in if sourceId = None \<or> destId = None \<or> isNaN numericAmount \<or>
              le_zero numericAmount then
             (message 400 ''Invalid account ids or amount'', d)
           else if sourceId = destId then
             (message 400 ''Source and destination accounts must be different'', d)
           else (case transfer_try E (the sourceId) (the destId) numericAmount b d of
                   Inl d' \<Rightarrow> catch_rollback E d'
                 | Inr r \<Rightarrow> r))"

text \<open>
  \<^verbatim>\<open>app.get('/accounts/:id')\<close>: two statements through the pool, outside any
  transaction, so they read the committed relations. A store error is answered with
  500. The balance is the text the store returns for the sum.
\<close>

definition get_account :: "env \<Rightarrow> jsval \<Rightarrow> db \<Rightarrow> response \<times> db" where
  "get_account E idParam d =
     (case parseInt E idParam of
        None \<Rightarrow> (message 400 ''Invalid account id'', d)
      | Some accId \<Rightarrow>
         (case query E (Select_account accId) d of
            Inl d1 \<Rightarrow> (message 500 ''Internal server error'', d1)
          | Inr d1 \<Rightarrow>
             (case select_account accId (tables d1) of
                [] \<Rightarrow> (message 404 ''Account not found'', d1)
              | acct # rest \<Rightarrow>
                 (case query E (Select_balance accId) d1 of
                    Inl d2 \<Rightarrow> (message 500 ''Internal server error'', d2)
                  | Inr d2 \<Rightarrow>
                     (\<lparr>status_code = 200,
                       json = [(''id'', RNum (acc_id acct)),
                               (''userId'', RJs (user_id acct)),
                               (''type'', RJs (acc_type acct)),
                               (''currency'', RJs (acc_currency acct)),
                               (''status'', RStr (acc_status acct)),
                               (''balance'',
                                  RNumeric (select_balance accId (tables d2)))]\<rparr>,
                      d2)))))"

text \<open>Requests, and the database after a sequence of them.\<close>

datatype request =
    Deposit body
  | Withdrawal body
  | Transfer body
  | Get_account jsval

fun handle :: "env \<Rightarrow> request \<Rightarrow> db \<Rightarrow> response \<times> db" where
  "handle E (Deposit b) d = post_deposits E b d"
| "handle E (Withdrawal b) d = post_withdrawals E b d"
| "handle E (Transfer b) d = post_transfers E b d"
| "handle E (Get_account v) d = get_account E v d"

fun run :: "env \<Rightarrow> request list \<Rightarrow> db \<Rightarrow> db" where
  "run E [] d = d"
| "run E (r # rs) d = run E rs (snd (handle E r d))"

section \<open>Notions used in the statements\<close>

text \<open>
  Integrity of the store as the schema declares it: account ids are a primary key, and
  the sequence of \<^verbatim>\<open>transactions.id\<close> is ahead of every transaction id in use, in
  \<^verbatim>\<open>transactions\<close> itself and as the foreign key of \<^verbatim>\<open>ledger_entries\<close>.
\<close>

definition wf_db :: "db \<Rightarrow> bool" where
  "wf_db d =
     (distinct (map acc_id (accounts (tables d))) \<and>
      (\<forall>t \<in> set (transactions (tables d)). tx_id t < transactions_id_seq d) \<and>
      (\<forall>e \<in> set (ledger_entries (tables d)). transaction_id e < transactions_id_seq d))"

definition account_exists :: "db \<Rightarrow> int \<Rightarrow> bool" where
  "account_exists d a = (a \<in> acc_id ` set (accounts (tables d)))"

text \<open>The relations a route commits on success: the transaction row, finalised by the
  UPDATE, and the ledger rows of its INSERT.\<close>

definition committed ::
  "env \<Rightarrow> db \<Rightarrow> string \<Rightarrow> jsnum \<Rightarrow> body \<Rightarrow> int option \<Rightarrow> int option \<Rightarrow>
   (int \<times> int \<times> string \<times> jsnum) list \<Rightarrow> store" where
  "committed E d ty n b src dst rows =
     \<lparr>accounts = accounts (tables d),
      transactions = map (set_completed (transactions_id_seq d)) (transactions (tables d) @
        [\<lparr>tx_id = transactions_id_seq d, tx_type = ty, tx_amount = to_numeric E n,
          tx_currency = currency b, source_account_id = src, destination_account_id = dst,
          tx_status = ''pending'', tx_description = or_null (description b)\<rparr>]),
      ledger_entries = ledger_entries (tables d) @
        mk_entries E (ledger_entries_id_seq d) rows\<rparr>"

text \<open>The balance in the words of the specification: the sum of the credit amounts
  minus the sum of the debit amounts over the entries of the account.\<close>

definition credit_total :: "store \<Rightarrow> int \<Rightarrow> int" where
  "credit_total s a =
     sum_list (map entry_amount (filter (\<lambda>e. entry_type e = ''credit'') (entries_of s a)))"

definition debit_total :: "store \<Rightarrow> int \<Rightarrow> int" where
  "debit_total s a =
     sum_list (map entry_amount (filter (\<lambda>e. entry_type e = ''debit'') (entries_of s a)))"

text \<open>The ledger rows of one transaction, and what they must be for a transfer: a
  debit against the source and a credit against the destination, of the amount of the
  transaction.\<close>

definition legs :: "store \<Rightarrow> int \<Rightarrow> entry list" where
  "legs s k = filter (\<lambda>e. transaction_id e = k) (ledger_entries s)"

fun transfer_pair :: "txn \<Rightarrow> entry list \<Rightarrow> bool" where
  "transfer_pair t [e1, e2] =
     (entry_type e1 = ''debit'' \<and> Some (account_id e1) = source_account_id t \<and>
      entry_type e2 = ''credit'' \<and> Some (account_id e2) = destination_account_id t \<and>
      entry_amount e1 = entry_amount e2 \<and> entry_amount e1 = tx_amount t)"
| "transfer_pair t es = False"

definition double_entry :: "store \<Rightarrow> bool" where
  "double_entry s =
     (\<forall>t \<in> set (transactions s). tx_type t = ''transfer'' \<longrightarrow> transfer_pair t (legs s (tx_id t)))"

text \<open>A request that passes the checks of step 1 of its route, with the account ids
  and the amount that \<^verbatim>\<open>parseInt\<close> and \<^verbatim>\<open>parseFloat\<close> give.\<close>

definition accepted_single :: "env \<Rightarrow> body \<Rightarrow> int \<Rightarrow> jsnum \<Rightarrow> bool" where
  "accepted_single E b a n =
     (truthy (accountId b) \<and> truthy (amount b) \<and> truthy (currency b) \<and>
      parseInt E (accountId b) = Some a \<and> parseFloat E (amount b) = n \<and>
      \<not> isNaN n \<and> \<not> le_zero n)"

definition accepted_transfer :: "env \<Rightarrow> body \<Rightarrow> int \<Rightarrow> int \<Rightarrow> jsnum \<Rightarrow> bool" where
  "accepted_transfer E b s t n =
     (truthy (sourceAccountId b) \<and> truthy (destinationAccountId b) \<and>
      truthy (amount b) \<and> truthy (currency b) \<and>
      parseInt E (sourceAccountId b) = Some s \<and>
      parseInt E (destinationAccountId b) = Some t \<and> parseFloat E (amount b) = n \<and>
      \<not> isNaN n \<and> \<not> le_zero n \<and> s \<noteq> t)"

text \<open>
  The two things a request can do to the committed relations: leave them as they are,
  with an answer other than 201, or commit one transaction with its ledger rows and
  answer 201.
\<close>

definition unchanged :: "db \<Rightarrow> response \<times> db \<Rightarrow> bool" where
  "unchanged d out =
     (status_code (fst out) \<noteq> 201 \<and> tables (snd out) = tables d \<and>
      transactions_id_seq d \<le> transactions_id_seq (snd out))"

definition commits ::
  "env \<Rightarrow> db \<Rightarrow> response \<times> db \<Rightarrow> string \<Rightarrow> jsnum \<Rightarrow> body \<Rightarrow>
   int option \<Rightarrow> int option \<Rightarrow> (int \<times> int \<times> string \<times> jsnum) list \<Rightarrow> bool" where
  "commits E d out ty n b src dst rows =
     (status_code (fst out) = 201 \<and>
      tables (snd out) = committed E d ty n b src dst rows \<and>
      transactions_id_seq (snd out) = transactions_id_seq d + 1)"

text \<open>The statements a request adds: \<^verbatim>\<open>UPDATE transactions SET status\<close> is sent at
  most once, and only for the transaction id the request itself has drawn.\<close>

definition updates_once :: "db \<Rightarrow> db \<Rightarrow> bool" where
  "updates_once d d' =
     (\<exists>ss. sent d' = sent d @ ss \<and>
        (\<forall>i. count_list ss (Update_completed i) \<le> 1 \<and>
             (Update_completed i \<in> set ss \<longrightarrow>
                i = transactions_id_seq d \<and> transactions_id_seq d' = transactions_id_seq d + 1)))"

section \<open>A worked example\<close>

text \<open>
  An environment for the examples, which send account ids and amounts as small JSON
  integers: on an integer \<open>n\<close> below \<open>10\<^sup>2\<^sup>1\<close> in magnitude \<^verbatim>\<open>parseInt(n, 10)\<close>
  is \<open>n\<close>, \<^verbatim>\<open>parseFloat\<close> of a number is that number, and NUMERIC(14,2) keeps an
  integer \<open>n\<close> as \<open>100 n\<close> hundredths. The examples use no other value; this
  environment answers NaN, or zero hundredths, on them. The store accepts every
  statement.
\<close>

definition demo_env :: env where
  "demo_env =
     \<lparr>parseInt = (\<lambda>v. case v of
          JNum (Fin q) \<Rightarrow>
            (if of_int \<lfloor>q\<rfloor> = q \<and> \<bar>q\<bar> < 10 ^ 21 then Some \<lfloor>q\<rfloor> else None)
        | _ \<Rightarrow> None),
      parseFloat = (\<lambda>v. case v of JNum n \<Rightarrow> n | _ \<Rightarrow> NaN),
      to_numeric = (\<lambda>n. case n of
          Fin q \<Rightarrow> (if of_int \<lfloor>q\<rfloor> = q then 100 * \<lfloor>q\<rfloor> else 0)
        | _ \<Rightarrow> 0),
      rejects = (\<lambda>s. False)\<rparr>"

text \<open>Accounts 1 and 2; account 1 holds 100.00 from one deposit.\<close>

definition demo_account :: "int \<Rightarrow> account" where
  "demo_account i =
     \<lparr>acc_id = i, user_id = JStr ''user1'', acc_type = JStr ''checking'',
      acc_currency = JStr ''INR'', acc_status = ''active''\<rparr>"

definition demo_db :: db where
  "demo_db =
     \<lparr>tables =
        \<lparr>accounts = [demo_account 1, demo_account 2],
         transactions =
           [\<lparr>tx_id = 1, tx_type = ''deposit'', tx_amount = 10000,
             tx_currency = JStr ''INR'', source_account_id = None,
             destination_account_id = Some 1, tx_status = ''completed'',
             tx_description = None\<rparr>],
         ledger_entries =
           [\<lparr>entry_id = 1, transaction_id = 1, account_id = 1, entry_type = ''credit'',
             entry_amount = 10000\<rparr>]\<rparr>,
      pending = None, transactions_id_seq = 2, ledger_entries_id_seq = 2, sent = []\<rparr>"

text \<open>\<^verbatim>\<open>{accountId: a, amount: n, currency: "INR"}\<close> and
  \<^verbatim>\<open>{sourceAccountId: a, destinationAccountId: c, amount: n, currency: "INR"}\<close>.\<close>

definition single_body :: "int \<Rightarrow> int \<Rightarrow> body" where
  "single_body a n =
     \<lparr>accountId = JNum (Fin (of_int a)), sourceAccountId = JUndefined,
      destinationAccountId = JUndefined, amount = JNum (Fin (of_int n)),
      currency = JStr ''INR'', description = JUndefined\<rparr>"

definition transfer_body :: "int \<Rightarrow> int \<Rightarrow> int \<Rightarrow> body" where
  "transfer_body a c n =
     \<lparr>accountId = JUndefined, sourceAccountId = JNum (Fin (of_int a)),
      destinationAccountId = JNum (Fin (of_int c)), amount = JNum (Fin (of_int n)),
      currency = JStr ''INR'', description = JUndefined\<rparr>"

section \<open>The amount column and two clients\<close>

text \<open>
  What a NUMERIC(14,2) column keeps of a decimal, in hundredths: the decimal rounded to
  two fractional digits, ties away from zero. The store raises an error (numeric field
  overflow) on an amount that needs more than twelve digits before the point, and on an
  infinity.
\<close>

definition numeric_14_2 :: "rat \<Rightarrow> int" where
  "numeric_14_2 q =
     (if 0 \<le> q then \<lfloor>100 * q + 1 / 2\<rfloor> else - \<lfloor>100 * (- q) + 1 / 2\<rfloor>)"

fun overflows :: "jsnum \<Rightarrow> bool" where
  "overflows (Fin q) = (10 ^ 14 \<le> \<bar>numeric_14_2 q\<bar>)"
| "overflows PosInf = True"
| "overflows NegInf = True"
| "overflows NaN = False"

fun numeric_overflow :: "stmt \<Rightarrow> bool" where
  "numeric_overflow (Insert_transaction ty amt cur src dst descr) = overflows amt"
| "numeric_overflow (Insert_ledger_entries rows) =
     list_ex (\<lambda>(t, a, ty, amt). overflows amt) rows"
| "numeric_overflow s = False"

text \<open>The example environment with this column: amounts are rounded as above, and
  the store rejects the INSERT of an amount that overflows.\<close>

definition decimal_env :: env where
  "decimal_env =
     \<lparr>parseInt = parseInt demo_env,
      parseFloat = parseFloat demo_env,
      to_numeric = (\<lambda>n. case n of Fin q \<Rightarrow> numeric_14_2 q | _ \<Rightarrow> 0),
      rejects = numeric_overflow\<rparr>"

text \<open>\<^verbatim>\<open>{accountId: a, amount: q, currency: "INR"}\<close> for a decimal amount.\<close>

definition decimal_body :: "int \<Rightarrow> rat \<Rightarrow> body" where
  "decimal_body a q =
     \<lparr>accountId = JNum (Fin (of_int a)), sourceAccountId = JUndefined,
      destinationAccountId = JUndefined, amount = JNum (Fin q),
      currency = JStr ''INR'', description = JUndefined\<rparr>"

text \<open>
  Two clients of the pool at once. Under READ COMMITTED, the isolation level the README
  names, a statement of a client sees the committed rows and the rows the client's own
  open transaction has written; COMMIT adds the client's rows to the committed ones.
  A client is the rows its open transaction has written. The store accepts every
  statement here, and the sequences are shared.
\<close>

record client =
  own_transactions :: "txn list"
  own_entries :: "entry list"

definition no_rows :: client where
  "no_rows = \<lparr>own_transactions = [], own_entries = []\<rparr>"

definition client_view :: "db \<Rightarrow> client \<Rightarrow> store" where
  "client_view d c =
     (tables d)\<lparr>transactions := transactions (tables d) @ own_transactions c,
                ledger_entries := ledger_entries (tables d) @ own_entries c\<rparr>"

fun client_exec :: "env \<Rightarrow> stmt \<Rightarrow> db \<times> client \<Rightarrow> db \<times> client" where
  "client_exec E Begin (d, c) = (d, no_rows)"
| "client_exec E Commit (d, c) = (d\<lparr>tables := client_view d c\<rparr>, no_rows)"
| "client_exec E Rollback (d, c) = (d, no_rows)"
| "client_exec E (Insert_transaction ty amt cur src dst descr) (d, c) =
     (d\<lparr>transactions_id_seq := transactions_id_seq d + 1\<rparr>,
      c\<lparr>own_transactions := own_transactions c @
        [\<lparr>tx_id = transactions_id_seq d, tx_type = ty, tx_amount = to_numeric E amt,
          tx_currency = cur, source_account_id = src, destination_account_id = dst,
          tx_status = ''pending'', tx_description = descr\<rparr>]\<rparr>)"
| "client_exec E (Insert_ledger_entries rows) (d, c) =
     (d\<lparr>ledger_entries_id_seq := ledger_entries_id_seq d + int (length rows)\<rparr>,
      c\<lparr>own_entries := own_entries c @ mk_entries E (ledger_entries_id_seq d) rows\<rparr>)"
| "client_exec E (Update_completed i) (d, c) =
     (d, c\<lparr>own_transactions := map (set_completed i) (own_transactions c)\<rparr>)"
| "client_exec E (Select_account_id i) (d, c) = (d, c)"
| "client_exec E (Select_account_ids ids) (d, c) = (d, c)"
| "client_exec E (Select_account i) (d, c) = (d, c)"
| "client_exec E (Select_balance i) (d, c) = (d, c)"

definition client_query :: "env \<Rightarrow> stmt \<Rightarrow> db \<times> client \<Rightarrow> db \<times> client" where
  "client_query E s dc = client_exec E s ((fst dc)\<lparr>sent := sent (fst dc) @ [s]\<rparr>, snd dc)"

text \<open>
  \<^verbatim>\<open>app.post('/withdrawals')\<close> for a request that has passed validation, cut where
  another client can run: steps 2 to 6, up to the SELECT of the balance, and then the
  test of \<^verbatim>\<open>newBalance\<close> with step 7. Between the two the route holds
  \<^verbatim>\<open>transactionId\<close> and \<^verbatim>\<open>newBalance\<close>, or has already answered.
\<close>

datatype progress = Answered response | Checked int int

definition withdrawal_steps_2_to_6 ::
  "env \<Rightarrow> int \<Rightarrow> jsnum \<Rightarrow> body \<Rightarrow> db \<times> client \<Rightarrow> progress \<times> db \<times> client" where
  "withdrawal_steps_2_to_6 E accId numericAmount b dc0 =
     (let dc1 = client_query E Begin dc0;
          dc2 = client_query E (Select_account_id accId) dc1
      in if select_account_id accId (client_view (fst dc2) (snd dc2)) = [] then
           (Answered (message 404 ''Account not found''), client_query E Rollback dc2)
         else
           let transactionId = transactions_id_seq (fst dc2);
               dc3 = client_query E (Insert_transaction ''withdrawal'' numericAmount
                       (currency b) (Some accId) None (or_null (description b))) dc2;
               dc4 = client_query E (Insert_ledger_entries
                       [(transactionId, accId, ''debit'', numericAmount)]) dc3;
               dc5 = client_query E (Select_balance accId) dc4;
               newBalance = select_balance accId (client_view (fst dc5) (snd dc5))
           in (Checked transactionId newBalance, dc5))"

definition withdrawal_step_7 ::
  "env \<Rightarrow> int \<Rightarrow> jsnum \<Rightarrow> body \<Rightarrow> progress \<Rightarrow> db \<times> client \<Rightarrow> response \<times> db \<times> client" where
  "withdrawal_step_7 E accId numericAmount b p dc5 =
     (case p of
        Answered r \<Rightarrow> (r, dc5)
      | Checked transactionId newBalance \<Rightarrow>
          if newBalance < 0 then
            (message 422 ''Insufficient funds'', client_query E Rollback dc5)
          else
            let dc6 = client_query E (Update_completed transactionId) dc5;
                dc7 = client_query E Commit dc6
            in (\<lparr>status_code = 201,
                 json = [(''transactionId'', RNum transactionId),
                         (''status'', RStr ''completed''),
                         (''accountId'', RNum accId),
                         (''amount'', RFixed2 numericAmount),
                         (''currency'', RJs (currency b))]\<rparr>, dc7))"

text \<open>One client alone, and two clients whose transactions overlap: both reach their
  balance check before either commits.\<close>

definition withdrawal_alone ::
  "env \<Rightarrow> int \<Rightarrow> jsnum \<Rightarrow> body \<Rightarrow> db \<Rightarrow> response \<times> db" where
  "withdrawal_alone E accId numericAmount b d =
     (let (p, dc) = withdrawal_steps_2_to_6 E accId numericAmount b (d, no_rows);
          (r, dc') = withdrawal_step_7 E accId numericAmount b p dc
      in (r, fst dc'))"

definition withdrawals_overlapping ::
  "env \<Rightarrow> int \<Rightarrow> jsnum \<Rightarrow> body \<Rightarrow> int \<Rightarrow> jsnum \<Rightarrow> body \<Rightarrow> db \<Rightarrow>
   response \<times> response \<times> db" where
  "withdrawals_overlapping E a1 n1 b1 a2 n2 b2 d =
     (let (p1, d1, c1) = withdrawal_steps_2_to_6 E a1 n1 b1 (d, no_rows);
          (p2, d2, c2) = withdrawal_steps_2_to_6 E a2 n2 b2 (d1, no_rows);
          (r1, d3, c1') = withdrawal_step_7 E a1 n1 b1 p1 (d2, c1);
          (r2, d4, c2') = withdrawal_step_7 E a2 n2 b2 p2 (d3, c2)
      in (r1, r2, d4))"

section \<open>Input validation\<close>

lemmas engine_defs =
  query_def and_then_def view_def write_store_def Let_def catch_rollback_def message_def

lemmas demo_defs =
  demo_env_def demo_db_def demo_account_def single_body_def transfer_body_def

lemmas run_defs = post_deposits_def post_withdrawals_def post_transfers_def
  deposit_try_def withdrawal_try_def transfer_try_def get_account_def
  select_account_id_def select_account_ids_def select_account_def
  select_balance_def sql_sum_def coalesce_def entries_of_def signed_amount_def
  isNaN_def or_null_def set_completed_def

text \<open>
  C7. A deposit, withdrawal or transfer request that lacks a required argument, whose
  amount is not positive, or (for a transfer) whose source and destination are the same
  account, is answered with 400 (InvalidInput), and the database is returned as it was
  given: no statement is sent, so no transaction is opened and nothing is read or
  written.
\<close>

theorem invalid_input_leaves_store_untouched:
  "((accountId b = JUndefined \<or> amount b = JUndefined \<or> currency b = JUndefined \<or>
     le_zero (parseFloat E (amount b))) \<longrightarrow>
      status_code (fst (post_deposits E b d)) = 400 \<and> snd (post_deposits E b d) = d \<and>
      status_code (fst (post_withdrawals E b d)) = 400 \<and> snd (post_withdrawals E b d) = d) \<and>
   ((sourceAccountId b = JUndefined \<or> destinationAccountId b = JUndefined \<or>
     amount b = JUndefined \<or> currency b = JUndefined \<or>
     le_zero (parseFloat E (amount b)) \<or>
     parseInt E (sourceAccountId b) = parseInt E (destinationAccountId b)) \<longrightarrow>
      status_code (fst (post_transfers E b d)) = 400 \<and> snd (post_transfers E b d) = d)"
  by (auto simp: post_deposits_def post_withdrawals_def post_transfers_def message_def Let_def)

theorem invalid_input_leaves_store_untouched_witness:
  "amount ((single_body 1 60)\<lparr>amount := JUndefined\<rparr>) = JUndefined \<and>
   status_code (fst (post_deposits demo_env ((single_body 1 60)\<lparr>amount := JUndefined\<rparr>)
     demo_db)) = 400 \<and>
   snd (post_deposits demo_env ((single_body 1 60)\<lparr>amount := JUndefined\<rparr>) demo_db) =
     demo_db \<and>
   le_zero (parseFloat demo_env (amount (single_body 1 (- 5)))) \<and>
   status_code (fst (post_deposits demo_env (single_body 1 (- 5)) demo_db)) = 400 \<and>
   snd (post_deposits demo_env (single_body 1 (- 5)) demo_db) = demo_db \<and>
   status_code (fst (post_withdrawals demo_env (single_body 1 (- 5)) demo_db)) = 400 \<and>
   snd (post_withdrawals demo_env (single_body 1 (- 5)) demo_db) = demo_db \<and>
   parseInt demo_env (sourceAccountId (transfer_body 1 1 60)) =
     parseInt demo_env (destinationAccountId (transfer_body 1 1 60)) \<and>
   status_code (fst (post_transfers demo_env (transfer_body 1 1 60) demo_db)) = 400 \<and>
   snd (post_transfers demo_env (transfer_body 1 1 60) demo_db) = demo_db"
proof -
  have h0: "amount ((single_body 1 60)\<lparr>amount := JUndefined\<rparr>) = JUndefined"
    by simp
  have h1: "le_zero (parseFloat demo_env (amount (single_body 1 (- 5))))"
    by (simp add: demo_defs)
  have h2: "parseInt demo_env (sourceAccountId (transfer_body 1 1 60)) =
     parseInt demo_env (destinationAccountId (transfer_body 1 1 60))"
    by (simp add: demo_defs)
  from h0 h1 h2
    invalid_input_leaves_store_untouched
      [of "(single_body 1 60)\<lparr>amount := JUndefined\<rparr>" demo_env demo_db]
    invalid_input_leaves_store_untouched [of "single_body 1 (- 5)" demo_env demo_db]
    invalid_input_leaves_store_untouched [of "transfer_body 1 1 60" demo_env demo_db]
  show ?thesis by blast
qed

text \<open>
  C10. Presence of a field is tested by truthiness, so a request whose account id or
  amount is the number 0 gets the answer of a request that lacks the field: 400 with
  the message that the fields are required, before any statement is sent. A request
  that names account 0 is therefore never answered with 404.
\<close>

theorem falsy_field_is_missing_field:
  "((accountId b = JNum (Fin 0) \<or> amount b = JNum (Fin 0)) \<longrightarrow>
      post_deposits E b d =
        (message 400 ''accountId, amount, and currency are required'', d) \<and>
      post_withdrawals E b d =
        (message 400 ''accountId, amount, and currency are required'', d)) \<and>
   ((sourceAccountId b = JNum (Fin 0) \<or> destinationAccountId b = JNum (Fin 0) \<or>
     amount b = JNum (Fin 0)) \<longrightarrow>
      post_transfers E b d =
        (message 400
           ''sourceAccountId, destinationAccountId, amount, and currency are required'', d))"
  by (auto simp: post_deposits_def post_withdrawals_def post_transfers_def)

theorem falsy_field_is_missing_field_witness:
  "accountId (single_body 0 60) = JNum (Fin 0) \<and>
   \<not> account_exists demo_db 0 \<and>
   post_deposits demo_env (single_body 0 60) demo_db =
     (message 400 ''accountId, amount, and currency are required'', demo_db) \<and>
   post_withdrawals demo_env (single_body 0 60) demo_db =
     (message 400 ''accountId, amount, and currency are required'', demo_db) \<and>
   amount (single_body 1 0) = JNum (Fin 0) \<and>
   post_deposits demo_env (single_body 1 0) demo_db =
     (message 400 ''accountId, amount, and currency are required'', demo_db) \<and>
   destinationAccountId (transfer_body 1 0 60) = JNum (Fin 0) \<and>
   post_transfers demo_env (transfer_body 1 0 60) demo_db =
     (message 400
        ''sourceAccountId, destinationAccountId, amount, and currency are required'',
      demo_db)"
proof -
  have h1: "accountId (single_body 0 60) = JNum (Fin 0)"
    by (simp add: single_body_def)
  have h2: "destinationAccountId (transfer_body 1 0 60) = JNum (Fin 0)"
    by (simp add: transfer_body_def)
  have h3: "\<not> account_exists demo_db 0"
    by (simp add: account_exists_def demo_defs)
  have h4: "amount (single_body 1 0) = JNum (Fin 0)"
    by (simp add: single_body_def)
  from h1 h2 h3 h4
    falsy_field_is_missing_field [of "single_body 0 60" demo_env demo_db]
    falsy_field_is_missing_field [of "single_body 1 0" demo_env demo_db]
    falsy_field_is_missing_field [of "transfer_body 1 0 60" demo_env demo_db]
  show ?thesis by blast
qed

section \<open>What a request does to the committed relations\<close>

lemma select_balance_sum:
  "select_balance a s = sum_list (map signed_amount (entries_of s a))"
  by (simp add: select_balance_def sql_sum_def coalesce_def)

lemma deposit_try_Inl:
  "deposit_try E a n b d = Inl d' \<Longrightarrow>
     tables d' = tables d \<and> transactions_id_seq d \<le> transactions_id_seq d'"
  by (auto simp: deposit_try_def engine_defs split: if_splits)

lemma deposit_try_Inr:
  "deposit_try E a n b d = Inr (r, d') \<Longrightarrow>
     (status_code r \<noteq> 201 \<and> tables d' = tables d \<and>
      transactions_id_seq d' = transactions_id_seq d) \<or>
     (status_code r = 201 \<and>
      tables d' = committed E d ''deposit'' n b None (Some a)
         [(transactions_id_seq d, a, ''credit'', n)] \<and>
      transactions_id_seq d' = transactions_id_seq d + 1)"
  by (auto simp: deposit_try_def engine_defs committed_def split: if_splits)

lemma withdrawal_try_Inl:
  "withdrawal_try E a n b d = Inl d' \<Longrightarrow>
     tables d' = tables d \<and> transactions_id_seq d \<le> transactions_id_seq d'"
  by (auto simp: withdrawal_try_def engine_defs split: if_splits)

lemma withdrawal_try_Inr:
  "withdrawal_try E a n b d = Inr (r, d') \<Longrightarrow>
     (status_code r \<noteq> 201 \<and> tables d' = tables d \<and>
      transactions_id_seq d \<le> transactions_id_seq d') \<or>
     (status_code r = 201 \<and>
      tables d' = committed E d ''withdrawal'' n b (Some a) None
         [(transactions_id_seq d, a, ''debit'', n)] \<and>
      transactions_id_seq d' = transactions_id_seq d + 1)"
  by (auto simp: withdrawal_try_def engine_defs committed_def split: if_splits)

lemma transfer_try_Inl:
  "transfer_try E s t n b d = Inl d' \<Longrightarrow>
     tables d' = tables d \<and> transactions_id_seq d \<le> transactions_id_seq d'"
  by (auto simp: transfer_try_def engine_defs split: if_splits)

lemma transfer_try_Inr:
  "transfer_try E s t n b d = Inr (r, d') \<Longrightarrow>
     (status_code r \<noteq> 201 \<and> tables d' = tables d \<and>
      transactions_id_seq d \<le> transactions_id_seq d') \<or>
     (status_code r = 201 \<and>
      tables d' = committed E d ''transfer'' n b (Some s) (Some t)
         [(transactions_id_seq d, s, ''debit'', n), (transactions_id_seq d, t, ''credit'', n)] \<and>
      transactions_id_seq d' = transactions_id_seq d + 1)"
  by (auto simp: transfer_try_def engine_defs committed_def split: if_splits)

lemma post_deposits_outcome:
  "unchanged d (post_deposits E b d) \<or>
   (\<exists>a. parseInt E (accountId b) = Some a \<and>
      commits E d (post_deposits E b d) ''deposit'' (parseFloat E (amount b)) b None (Some a)
         [(transactions_id_seq d, a, ''credit'', parseFloat E (amount b))])"
proof (cases "\<not> truthy (accountId b) \<or> \<not> truthy (amount b) \<or> \<not> truthy (currency b) \<or>
    parseInt E (accountId b) = None \<or> isNaN (parseFloat E (amount b)) \<or> le_zero (parseFloat E (amount b))")
  case True
  then show ?thesis
    by (auto simp: post_deposits_def unchanged_def message_def Let_def)
next
  case False
  then obtain a where a: "parseInt E (accountId b) = Some a" by auto
  show ?thesis
  proof (cases "deposit_try E a (parseFloat E (amount b)) b d")
    case (Inl d')
    with False a deposit_try_Inl [OF Inl] show ?thesis
      by (auto simp: post_deposits_def unchanged_def Let_def catch_rollback_def message_def query_def)
  next
    case (Inr p)
    obtain r d' where p: "p = (r, d')" by (cases p)
    with False a Inr deposit_try_Inr [of E a "parseFloat E (amount b)" b d r d'] show ?thesis
      by (auto simp: post_deposits_def unchanged_def commits_def Let_def)
  qed
qed

lemma post_withdrawals_outcome:
  "unchanged d (post_withdrawals E b d) \<or>
   (\<exists>a. parseInt E (accountId b) = Some a \<and>
      commits E d (post_withdrawals E b d) ''withdrawal'' (parseFloat E (amount b)) b (Some a) None
         [(transactions_id_seq d, a, ''debit'', parseFloat E (amount b))])"
proof (cases "\<not> truthy (accountId b) \<or> \<not> truthy (amount b) \<or> \<not> truthy (currency b) \<or>
    parseInt E (accountId b) = None \<or> isNaN (parseFloat E (amount b)) \<or> le_zero (parseFloat E (amount b))")
  case True
  then show ?thesis
    by (auto simp: post_withdrawals_def unchanged_def message_def Let_def)
next
  case False
  then obtain a where a: "parseInt E (accountId b) = Some a" by auto
  show ?thesis
  proof (cases "withdrawal_try E a (parseFloat E (amount b)) b d")
    case (Inl d')
    with False a withdrawal_try_Inl [OF Inl] show ?thesis
      by (auto simp: post_withdrawals_def unchanged_def Let_def catch_rollback_def message_def query_def)
  next
    case (Inr p)
    obtain r d' where p: "p = (r, d')" by (cases p)
    with False a Inr withdrawal_try_Inr [of E a "parseFloat E (amount b)" b d r d'] show ?thesis
      by (auto simp: post_withdrawals_def unchanged_def commits_def Let_def)
  qed
qed

lemma post_transfers_outcome:
  "unchanged d (post_transfers E b d) \<or>
   (\<exists>s t. parseInt E (sourceAccountId b) = Some s \<and> parseInt E (destinationAccountId b) = Some t \<and>
      s \<noteq> t \<and>
      commits E d (post_transfers E b d) ''transfer'' (parseFloat E (amount b)) b (Some s) (Some t)
         [(transactions_id_seq d, s, ''debit'', parseFloat E (amount b)),
          (transactions_id_seq d, t, ''credit'', parseFloat E (amount b))])"
proof (cases "\<not> truthy (sourceAccountId b) \<or> \<not> truthy (destinationAccountId b) \<or>
    \<not> truthy (amount b) \<or> \<not> truthy (currency b) \<or>
    parseInt E (sourceAccountId b) = None \<or> parseInt E (destinationAccountId b) = None \<or>
    isNaN (parseFloat E (amount b)) \<or> le_zero (parseFloat E (amount b)) \<or>
    parseInt E (sourceAccountId b) = parseInt E (destinationAccountId b)")
  case True
  then show ?thesis
    by (auto simp: post_transfers_def unchanged_def message_def Let_def)
next
  case False
  then obtain s t where st: "parseInt E (sourceAccountId b) = Some s"
      "parseInt E (destinationAccountId b) = Some t" "s \<noteq> t" by auto
  show ?thesis
  proof (cases "transfer_try E s t (parseFloat E (amount b)) b d")
    case (Inl d')
    with False st transfer_try_Inl [OF Inl] show ?thesis
      by (auto simp: post_transfers_def unchanged_def Let_def catch_rollback_def message_def query_def)
  next
    case (Inr p)
    obtain r d' where p: "p = (r, d')" by (cases p)
    with False st Inr transfer_try_Inr [of E s t "parseFloat E (amount b)" b d r d'] show ?thesis
      by (auto simp: post_transfers_def unchanged_def commits_def Let_def)
  qed
qed

lemma get_account_unchanged: "unchanged d (get_account E v d)"
  by (auto simp: get_account_def unchanged_def message_def query_def Let_def
      split: option.splits list.splits)

lemma mk_entries_transaction_id:
  "e \<in> set (mk_entries E i rows) \<Longrightarrow> transaction_id e \<in> fst ` set rows"
  by (induction E i rows rule: mk_entries.induct) auto

lemma committed_transactions:
  assumes "wf_db d"
  shows "transactions (committed E d ty n b src dst rows) = transactions (tables d) @
     [\<lparr>tx_id = transactions_id_seq d, tx_type = ty, tx_amount = to_numeric E n,
       tx_currency = currency b, source_account_id = src, destination_account_id = dst,
       tx_status = ''completed'', tx_description = or_null (description b)\<rparr>]"
proof -
  have "map (set_completed (transactions_id_seq d)) (transactions (tables d)) =
      transactions (tables d)"
    using assms by (intro map_idI) (auto simp: wf_db_def set_completed_def)
  then show ?thesis by (simp add: committed_def set_completed_def)
qed

lemma wf_unchanged:
  "wf_db d \<Longrightarrow> unchanged d out \<Longrightarrow> wf_db (snd out)"
  by (fastforce simp: wf_db_def unchanged_def)

lemma wf_commits:
  assumes "wf_db d" "commits E d out ty n b src dst rows"
    "\<forall>row \<in> set rows. fst row = transactions_id_seq d"
  shows "wf_db (snd out)"
proof -
  have tb: "tables (snd out) = committed E d ty n b src dst rows"
    and sq: "transactions_id_seq (snd out) = transactions_id_seq d + 1"
    using assms(2) by (simp_all add: commits_def)
  have "distinct (map acc_id (accounts (tables (snd out))))"
    using assms(1) by (simp add: tb committed_def wf_db_def)
  moreover have "\<forall>t \<in> set (transactions (tables (snd out))). tx_id t < transactions_id_seq (snd out)"
    using assms(1) by (auto simp: tb sq committed_transactions wf_db_def)
  moreover have "\<forall>e \<in> set (ledger_entries (tables (snd out))). transaction_id e < transactions_id_seq (snd out)"
    using assms(1,3) by (auto simp: tb sq committed_def wf_db_def dest!: mk_entries_transaction_id)
  ultimately show ?thesis by (simp add: wf_db_def)
qed

lemma wf_handle: "wf_db d \<Longrightarrow> wf_db (snd (handle E rq d))"
proof (cases rq)
  case (Deposit b)
  assume "wf_db d"
  with Deposit post_deposits_outcome [of d E b] show ?thesis
    by (auto intro: wf_unchanged wf_commits)
next
  case (Withdrawal b)
  assume "wf_db d"
  with Withdrawal post_withdrawals_outcome [of d E b] show ?thesis
    by (auto intro: wf_unchanged wf_commits)
next
  case (Transfer b)
  assume "wf_db d"
  with Transfer post_transfers_outcome [of d E b] show ?thesis
    by (auto intro: wf_unchanged wf_commits)
next
  case (Get_account v)
  assume "wf_db d"
  with Get_account get_account_unchanged [of d E v] show ?thesis
    by (auto intro: wf_unchanged)
qed

lemma wf_run: "wf_db d \<Longrightarrow> wf_db (run E rs d)"
  by (induction rs arbitrary: d) (auto intro: wf_handle)

section \<open>Status updates\<close>

lemma deposit_try_updates:
  "deposit_try E a n b d = Inl d' \<or> deposit_try E a n b d = Inr (r, d') \<Longrightarrow> updates_once d d'"
  by (auto simp: deposit_try_def engine_defs updates_once_def split: if_splits)

lemma withdrawal_try_updates:
  "withdrawal_try E a n b d = Inl d' \<or> withdrawal_try E a n b d = Inr (r, d') \<Longrightarrow> updates_once d d'"
  by (auto simp: withdrawal_try_def engine_defs updates_once_def split: if_splits)

lemma transfer_try_updates:
  "transfer_try E s t n b d = Inl d' \<or> transfer_try E s t n b d = Inr (r, d') \<Longrightarrow> updates_once d d'"
  by (auto simp: transfer_try_def engine_defs updates_once_def split: if_splits)

lemma updates_once_refl: "updates_once d d"
  by (simp add: updates_once_def)

lemma updates_once_catch:
  "updates_once d d' \<Longrightarrow> updates_once d (snd (catch_rollback E d'))"
  by (auto simp: updates_once_def catch_rollback_def query_def Let_def)

lemma post_deposits_updates: "updates_once d (snd (post_deposits E b d))"
  using deposit_try_updates [of E "the (parseInt E (accountId b))" "parseFloat E (amount b)" b d]
  by (auto simp: post_deposits_def Let_def updates_once_refl updates_once_catch split: sum.splits)

lemma post_withdrawals_updates: "updates_once d (snd (post_withdrawals E b d))"
  using withdrawal_try_updates [of E "the (parseInt E (accountId b))" "parseFloat E (amount b)" b d]
  by (auto simp: post_withdrawals_def Let_def updates_once_refl updates_once_catch split: sum.splits)

lemma post_transfers_updates: "updates_once d (snd (post_transfers E b d))"
  using transfer_try_updates [of E "the (parseInt E (sourceAccountId b))"
      "the (parseInt E (destinationAccountId b))" "parseFloat E (amount b)" b d]
  by (auto simp: post_transfers_def Let_def updates_once_refl updates_once_catch split: sum.splits)

lemma get_account_updates: "updates_once d (snd (get_account E v d))"
  by (auto simp: get_account_def updates_once_def query_def Let_def message_def
      split: option.splits list.splits)

lemma handle_updates: "updates_once d (snd (handle E rq d))"
  by (cases rq)
    (simp_all add: post_deposits_updates post_withdrawals_updates post_transfers_updates
      get_account_updates)

lemma handle_outcome:
  "unchanged d (handle E rq d) \<or>
   (\<exists>ty n b src dst rows. commits E d (handle E rq d) ty n b src dst rows \<and>
      (\<forall>row \<in> set rows. fst row = transactions_id_seq d) \<and>
      (ty = ''transfer'' \<longrightarrow> (\<exists>s t. src = Some s \<and> dst = Some t \<and>
          rows = [(transactions_id_seq d, s, ''debit'', n), (transactions_id_seq d, t, ''credit'', n)])))"
proof (cases rq)
  case (Deposit b)
  with post_deposits_outcome [of d E b] show ?thesis
    by (elim disjE exE conjE) (simp, rule disjI2, force)
next
  case (Withdrawal b)
  with post_withdrawals_outcome [of d E b] show ?thesis
    by (elim disjE exE conjE) (simp, rule disjI2, force)
next
  case (Transfer b)
  with post_transfers_outcome [of d E b] show ?thesis
    by (elim disjE exE conjE) (simp, rule disjI2, force)
next
  case (Get_account v)
  with get_account_unchanged [of d E v] show ?thesis by simp
qed

lemma handle_seq_mono:
  "transactions_id_seq d \<le> transactions_id_seq (snd (handle E rq d))"
  using handle_outcome [of d E rq] by (auto simp: unchanged_def commits_def)

lemma run_seq_mono: "transactions_id_seq d \<le> transactions_id_seq (run E rs d)"
proof (induction rs arbitrary: d)
  case Nil
  show ?case by simp
next
  case (Cons rq rs)
  from handle_seq_mono [of d E rq] Cons [of "snd (handle E rq d)"] show ?case by simp
qed

lemma handle_transactions:
  assumes "wf_db d"
  shows "\<exists>ts. transactions (tables (snd (handle E rq d))) = transactions (tables d) @ ts \<and>
     (\<forall>t \<in> set ts. tx_status t = ''completed'')"
  using handle_outcome [of d E rq]
proof (elim disjE exE conjE)
  assume "unchanged d (handle E rq d)"
  then have "transactions (tables (snd (handle E rq d))) = transactions (tables d) @ []"
    by (simp add: unchanged_def)
  then show ?thesis by (intro exI [of _ "[]"]) simp
next
  fix ty n b src dst rows
  assume "commits E d (handle E rq d) ty n b src dst rows"
  then have "tables (snd (handle E rq d)) = committed E d ty n b src dst rows"
    by (simp add: commits_def)
  with committed_transactions [OF assms, of E ty n b src dst rows] show ?thesis
    by simp
qed

lemma run_transactions:
  "wf_db d \<Longrightarrow> \<exists>ts. transactions (tables (run E rs d)) = transactions (tables d) @ ts \<and>
     (\<forall>t \<in> set ts. tx_status t = ''completed'')"
proof (induction rs arbitrary: d)
  case Nil
  show ?case by simp
next
  case (Cons rq rs)
  let ?d1 = "snd (handle E rq d)"
  from handle_transactions [OF Cons.prems, of E rq] obtain ts1 where
    t1: "transactions (tables ?d1) = transactions (tables d) @ ts1"
      "\<forall>t \<in> set ts1. tx_status t = ''completed''" by blast
  from Cons.IH [OF wf_handle [OF Cons.prems, of E rq]] obtain ts2 where
    t2: "transactions (tables (run E rs ?d1)) = transactions (tables ?d1) @ ts2"
      "\<forall>t \<in> set ts2. tx_status t = ''completed''" by blast
  from t1 t2 have "transactions (tables (run E (rq # rs) d)) = transactions (tables d) @ (ts1 @ ts2) \<and>
      (\<forall>t \<in> set (ts1 @ ts2). tx_status t = ''completed'')" by auto
  then show ?case by blast
qed

lemma run_updates:
  "\<exists>ss. sent (run E rs d) = sent d @ ss \<and>
     (\<forall>i. count_list ss (Update_completed i) \<le> 1 \<and>
          (Update_completed i \<in> set ss \<longrightarrow>
             transactions_id_seq d \<le> i \<and> i < transactions_id_seq (run E rs d)))"
proof (induction rs arbitrary: d)
  case Nil
  show ?case by simp
next
  case (Cons rq rs)
  let ?d1 = "snd (handle E rq d)"
  from handle_updates [of d E rq] obtain s1 where
    s1: "sent ?d1 = sent d @ s1"
      "\<And>i. count_list s1 (Update_completed i) \<le> 1"
      "\<And>i. Update_completed i \<in> set s1 \<Longrightarrow>
          i = transactions_id_seq d \<and> transactions_id_seq ?d1 = transactions_id_seq d + 1"
    unfolding updates_once_def by blast
  from Cons [of ?d1] obtain s2 where
    s2: "sent (run E rs ?d1) = sent ?d1 @ s2"
      "\<And>i. count_list s2 (Update_completed i) \<le> 1"
      "\<And>i. Update_completed i \<in> set s2 \<Longrightarrow>
          transactions_id_seq ?d1 \<le> i \<and> i < transactions_id_seq (run E rs ?d1)"
    by blast
  have mono1: "transactions_id_seq d \<le> transactions_id_seq ?d1" by (rule handle_seq_mono)
  have mono2: "transactions_id_seq ?d1 \<le> transactions_id_seq (run E rs ?d1)" by (rule run_seq_mono)
  have "count_list (s1 @ s2) (Update_completed i) \<le> 1 \<and>
        (Update_completed i \<in> set (s1 @ s2) \<longrightarrow>
           transactions_id_seq d \<le> i \<and> i < transactions_id_seq (run E rs ?d1))" for i
  proof (cases "Update_completed i \<in> set s1")
    case True
    with s1(3) have i: "i = transactions_id_seq d" "transactions_id_seq ?d1 = transactions_id_seq d + 1"
      by auto
    with s2(3) [of i] have "Update_completed i \<notin> set s2" by auto
    then have "count_list s2 (Update_completed i) = 0" by (simp add: count_list_0_iff)
    with s1(2) [of i] i mono2 show ?thesis by auto
  next
    case False
    then have "count_list s1 (Update_completed i) = 0" by (simp add: count_list_0_iff)
    with s2(2) [of i] s2(3) [of i] False mono1 show ?thesis by auto
  qed
  with s1(1) s2(1) have "sent (run E (rq # rs) d) = sent d @ (s1 @ s2) \<and>
     (\<forall>i. count_list (s1 @ s2) (Update_completed i) \<le> 1 \<and>
          (Update_completed i \<in> set (s1 @ s2) \<longrightarrow>
             transactions_id_seq d \<le> i \<and> i < transactions_id_seq (run E (rq # rs) d)))"
    by simp
  then show ?case by blast
qed

section \<open>The legs of a transaction\<close>

lemma legs_committed_old:
  assumes "i \<noteq> transactions_id_seq d" "\<forall>row \<in> set rows. fst row = transactions_id_seq d"
  shows "legs (committed E d ty n b src dst rows) i = legs (tables d) i"
proof -
  have "filter (\<lambda>e. transaction_id e = i) (mk_entries E (ledger_entries_id_seq d) rows) = []"
    using assms by (auto simp: filter_empty_conv dest!: mk_entries_transaction_id)
  then show ?thesis by (simp add: legs_def committed_def)
qed

lemma legs_committed_new:
  assumes "wf_db d" "\<forall>row \<in> set rows. fst row = transactions_id_seq d"
  shows "legs (committed E d ty n b src dst rows) (transactions_id_seq d) =
     mk_entries E (ledger_entries_id_seq d) rows"
proof -
  have "filter (\<lambda>e. transaction_id e = transactions_id_seq d) (ledger_entries (tables d)) = []"
    using assms(1) by (auto simp: filter_empty_conv wf_db_def)
  moreover have "filter (\<lambda>e. transaction_id e = transactions_id_seq d)
      (mk_entries E (ledger_entries_id_seq d) rows) = mk_entries E (ledger_entries_id_seq d) rows"
    using assms(2) by (auto simp: filter_id_conv dest!: mk_entries_transaction_id)
  ultimately show ?thesis by (simp add: legs_def committed_def)
qed

lemma double_entry_committed:
  assumes wf: "wf_db d" and de: "double_entry (tables d)"
    and rows: "\<forall>row \<in> set rows. fst row = transactions_id_seq d"
    and tr: "ty = ''transfer'' \<longrightarrow> (\<exists>s t. src = Some s \<and> dst = Some t \<and>
          rows = [(transactions_id_seq d, s, ''debit'', n), (transactions_id_seq d, t, ''credit'', n)])"
  shows "double_entry (committed E d ty n b src dst rows)"
  unfolding double_entry_def
proof (intro ballI impI)
  fix t
  assume t: "t \<in> set (transactions (committed E d ty n b src dst rows))"
    and ty: "tx_type t = ''transfer''"
  from t committed_transactions [OF wf, of E ty n b src dst rows]
  consider (old) "t \<in> set (transactions (tables d))"
    | (new) "t = \<lparr>tx_id = transactions_id_seq d, tx_type = ty, tx_amount = to_numeric E n,
       tx_currency = currency b, source_account_id = src, destination_account_id = dst,
       tx_status = ''completed'', tx_description = or_null (description b)\<rparr>"
    by auto
  then show "transfer_pair t (legs (committed E d ty n b src dst rows) (tx_id t))"
  proof cases
    case old
    with wf have "tx_id t \<noteq> transactions_id_seq d" by (auto simp: wf_db_def)
    with legs_committed_old [OF this rows] old de ty show ?thesis
      by (simp add: double_entry_def)
  next
    case new
    with ty have "ty = ''transfer''" by simp
    with tr obtain s u where su: "src = Some s" "dst = Some u"
      "rows = [(transactions_id_seq d, s, ''debit'', n), (transactions_id_seq d, u, ''credit'', n)]"
      by blast
    from new legs_committed_new [OF wf rows, of E ty n b src dst] su show ?thesis
      by simp
  qed
qed

lemma double_entry_handle:
  assumes "wf_db d" "double_entry (tables d)"
  shows "double_entry (tables (snd (handle E rq d)))"
  using handle_outcome [of d E rq]
proof (elim disjE exE conjE)
  assume "unchanged d (handle E rq d)"
  with assms(2) show ?thesis by (simp add: unchanged_def)
next
  fix ty n b src dst rows
  assume "commits E d (handle E rq d) ty n b src dst rows"
    and "\<forall>row \<in> set rows. fst row = transactions_id_seq d"
    and "ty = ''transfer'' \<longrightarrow> (\<exists>s t. src = Some s \<and> dst = Some t \<and>
          rows = [(transactions_id_seq d, s, ''debit'', n), (transactions_id_seq d, t, ''credit'', n)])"
  with double_entry_committed [OF assms, of rows ty src dst n E b] show ?thesis
    by (simp add: commits_def)
qed

lemma double_entry_run:
  "wf_db d \<Longrightarrow> double_entry (tables d) \<Longrightarrow> double_entry (tables (run E rs d))"
  by (induction rs arbitrary: d) (auto intro: wf_handle double_entry_handle)

section \<open>The routes when the store accepts every statement\<close>

lemma query_accepted:
  "\<not> rejects E s \<Longrightarrow> query E s d = Inr (exec E s (d\<lparr>sent := sent d @ [s]\<rparr>))"
  by (simp add: query_def)

lemma select_account_id_empty:
  "(select_account_id a (tables d) = []) = (\<not> account_exists d a)"
  by (auto simp: select_account_id_def account_exists_def filter_empty_conv)

lemma select_account_ids_two:
  assumes "distinct (map acc_id (accounts (tables d)))" "s \<noteq> t"
  shows "(length (select_account_ids [s, t] (tables d)) = 2) =
     (account_exists d s \<and> account_exists d t)"
proof -
  let ?rows = "select_account_ids [s, t] (tables d)"
  have dist: "distinct ?rows"
    using assms(1) unfolding select_account_ids_def by (rule distinct_map_filter)
  have set: "set ?rows = {s, t} \<inter> acc_id ` set (accounts (tables d))"
    by (auto simp: select_account_ids_def)
  have len: "length ?rows = card ({s, t} \<inter> acc_id ` set (accounts (tables d)))"
    using dist set by (metis distinct_card)
  show ?thesis
  proof
    assume "length ?rows = 2"
    with len have c: "card ({s, t} \<inter> acc_id ` set (accounts (tables d))) = 2" by simp
    have "card {s, t} = 2" using assms(2) by simp
    with c have "{s, t} \<inter> acc_id ` set (accounts (tables d)) = {s, t}"
      by (intro card_subset_eq) auto
    then show "account_exists d s \<and> account_exists d t"
      by (auto simp: account_exists_def)
  next
    assume "account_exists d s \<and> account_exists d t"
    then have "{s, t} \<inter> acc_id ` set (accounts (tables d)) = {s, t}"
      by (auto simp: account_exists_def)
    with len assms(2) show "length ?rows = 2" by simp
  qed
qed

lemma deposit_not_found:
  assumes "\<forall>s. \<not> rejects E s" "\<not> account_exists d a"
  shows "deposit_try E a n b d =
     Inr (message 404 ''Account not found'',
          d\<lparr>pending := None, sent := sent d @ [Begin, Select_account_id a, Rollback]\<rparr>)"
  using assms
  by (simp add: deposit_try_def query_accepted and_then_def view_def
      select_account_id_empty [symmetric] select_account_id_def)

lemma withdrawal_not_found:
  assumes "\<forall>s. \<not> rejects E s" "\<not> account_exists d a"
  shows "withdrawal_try E a n b d =
     Inr (message 404 ''Account not found'',
          d\<lparr>pending := None, sent := sent d @ [Begin, Select_account_id a, Rollback]\<rparr>)"
  using assms
  by (simp add: withdrawal_try_def query_accepted and_then_def view_def
      select_account_id_empty [symmetric] select_account_id_def)

lemma transfer_not_found:
  assumes "\<forall>s. \<not> rejects E s" "wf_db d" "s \<noteq> t" "\<not> account_exists d s \<or> \<not> account_exists d t"
  shows "transfer_try E s t n b d =
     Inr (message 404 ''One or both accounts not found'',
          d\<lparr>pending := None, sent := sent d @ [Begin, Select_account_ids [s, t], Rollback]\<rparr>)"
proof -
  from assms(2) have "distinct (map acc_id (accounts (tables d)))" by (simp add: wf_db_def)
  from select_account_ids_two [OF this assms(3)] assms(4)
  have "length (select_account_ids [s, t] (tables d)) \<noteq> 2" by auto
  with assms(1) show ?thesis
    by (simp add: transfer_try_def query_accepted and_then_def view_def)
qed

lemma post_deposits_accepted:
  "accepted_single E b a n \<Longrightarrow>
   post_deposits E b d =
     (case deposit_try E a n b d of Inl d' \<Rightarrow> catch_rollback E d' | Inr r \<Rightarrow> r)"
  by (auto simp: accepted_single_def post_deposits_def Let_def)

lemma post_withdrawals_accepted:
  "accepted_single E b a n \<Longrightarrow>
   post_withdrawals E b d =
     (case withdrawal_try E a n b d of Inl d' \<Rightarrow> catch_rollback E d' | Inr r \<Rightarrow> r)"
  by (auto simp: accepted_single_def post_withdrawals_def Let_def)

lemma post_transfers_accepted:
  "accepted_transfer E b s t n \<Longrightarrow>
   post_transfers E b d =
     (case transfer_try E s t n b d of Inl d' \<Rightarrow> catch_rollback E d' | Inr r \<Rightarrow> r)"
  by (auto simp: accepted_transfer_def post_transfers_def Let_def)

lemma withdrawal_insufficient:
  assumes "\<forall>s. \<not> rejects E s" "account_exists d a"
    "select_balance a (tables d) - to_numeric E n < 0"
  shows "withdrawal_try E a n b d =
     Inr (message 422 ''Insufficient funds'',
          d\<lparr>pending := None,
            transactions_id_seq := transactions_id_seq d + 1,
            ledger_entries_id_seq := ledger_entries_id_seq d + 1,
            sent := sent d @
              [Begin, Select_account_id a,
               Insert_transaction ''withdrawal'' n (currency b) (Some a) None
                 (or_null (description b)),
               Insert_ledger_entries [(transactions_id_seq d, a, ''debit'', n)],
               Select_balance a, Rollback]\<rparr>)"
proof -
  from assms(2) have ex: "select_account_id a (tables d) \<noteq> []"
    by (simp add: select_account_id_empty)
  from assms(3) have neg: "sum_list (map signed_amount (entries_of (tables d) a)) - to_numeric E n < 0"
    by (simp add: select_balance_sum)
  show ?thesis
    using assms(1) ex neg
    by (simp add: withdrawal_try_def query_accepted and_then_def view_def write_store_def
        select_balance_sum entries_of_def signed_amount_def Let_def)
qed

lemma transfer_insufficient:
  assumes "\<forall>s. \<not> rejects E s" "wf_db d" "s \<noteq> t" "account_exists d s" "account_exists d t"
    "select_balance s (tables d) - to_numeric E n < 0"
  shows "transfer_try E s t n b d =
     Inr (message 422 ''Insufficient funds'',
          d\<lparr>pending := None,
            transactions_id_seq := transactions_id_seq d + 1,
            ledger_entries_id_seq := ledger_entries_id_seq d + 2,
            sent := sent d @
              [Begin, Select_account_ids [s, t],
               Insert_transaction ''transfer'' n (currency b) (Some s) (Some t)
                 (or_null (description b)),
               Insert_ledger_entries [(transactions_id_seq d, s, ''debit'', n),
                  (transactions_id_seq d, t, ''credit'', n)],
               Select_balance s, Rollback]\<rparr>)"
proof -
  from assms(2) have "distinct (map acc_id (accounts (tables d)))" by (simp add: wf_db_def)
  from select_account_ids_two [OF this assms(3)] assms(4,5)
  have ex: "length (select_account_ids [s, t] (tables d)) = 2" by simp
  from assms(6) have neg: "sum_list (map signed_amount (entries_of (tables d) s)) - to_numeric E n < 0"
    by (simp add: select_balance_sum)
  show ?thesis
    using assms(1,3) ex neg
    by (simp add: transfer_try_def query_accepted and_then_def view_def write_store_def
        select_balance_sum entries_of_def signed_amount_def Let_def)
qed

lemma deposit_succeeds:
  assumes "\<forall>s. \<not> rejects E s" "account_exists d a"
  shows "deposit_try E a n b d =
     Inr (\<lparr>status_code = 201,
            json = [(''transactionId'', RNum (transactions_id_seq d)),
                    (''status'', RStr ''completed''),
                    (''accountId'', RNum a),
                    (''amount'', RFixed2 n),
                    (''currency'', RJs (currency b))]\<rparr>,
          d\<lparr>tables := committed E d ''deposit'' n b None (Some a)
                [(transactions_id_seq d, a, ''credit'', n)],
            pending := None,
            transactions_id_seq := transactions_id_seq d + 1,
            ledger_entries_id_seq := ledger_entries_id_seq d + 1,
            sent := sent d @
              [Begin, Select_account_id a,
               Insert_transaction ''deposit'' n (currency b) None (Some a)
                 (or_null (description b)),
               Insert_ledger_entries [(transactions_id_seq d, a, ''credit'', n)],
               Update_completed (transactions_id_seq d), Commit]\<rparr>)"
proof -
  from assms(2) have ex: "select_account_id a (tables d) \<noteq> []"
    by (simp add: select_account_id_empty)
  show ?thesis
    using assms(1) ex
    by (simp add: deposit_try_def query_accepted and_then_def view_def write_store_def
        committed_def Let_def)
qed

lemma select_balance_committed_credit:
  "select_balance a (committed E d ty n b src dst [(k, a, ''credit'', n)]) =
     select_balance a (tables d) + to_numeric E n"
  by (simp add: select_balance_sum committed_def entries_of_def signed_amount_def)

section \<open>The balance query\<close>

lemma signed_sum_credit_debit:
  "sum_list (map signed_amount es) =
     sum_list (map entry_amount (filter (\<lambda>e. entry_type e = ''credit'') es)) -
     sum_list (map entry_amount (filter (\<lambda>e. entry_type e = ''debit'') es))"
  by (induction es) (auto simp: signed_amount_def)

lemma select_balance_credit_debit:
  "select_balance a s = credit_total s a - debit_total s a"
  by (simp add: select_balance_sum credit_total_def debit_total_def signed_sum_credit_debit)

lemma select_account_empty:
  "(select_account a (tables d) = []) = (\<not> account_exists d a)"
  by (auto simp: select_account_def account_exists_def filter_empty_conv)

lemma get_account_ok:
  assumes "status_code (fst (get_account E v d)) = 200"
  shows "\<exists>a. parseInt E v = Some a \<and> account_exists d a \<and>
     map_of (json (fst (get_account E v d))) ''balance'' =
       Some (RNumeric (select_balance a (tables d)))"
proof (cases "parseInt E v")
  case None
  with assms show ?thesis by (simp add: get_account_def message_def)
next
  case (Some a)
  show ?thesis
  proof (cases "select_account a (tables d)")
    case Nil
    with assms Some show ?thesis
      by (auto simp: get_account_def query_def Let_def message_def split: if_splits)
  next
    case (Cons acct rest)
    then have "account_exists d a"
      using select_account_empty [of a d] by simp
    with assms Some Cons show ?thesis
      by (auto simp: get_account_def query_def Let_def message_def split: if_splits)
  qed
qed

lemma get_account_found:
  assumes "\<forall>s. \<not> rejects E s" "parseInt E v = Some a" "account_exists d a"
  shows "status_code (fst (get_account E v d)) = 200"
proof -
  from assms(3) have "select_account a (tables d) \<noteq> []"
    by (auto simp: select_account_def account_exists_def filter_empty_conv)
  with assms(1,2) show ?thesis
    by (auto simp: get_account_def query_def Let_def split: list.splits)
qed


section \<open>Rounding, repeated deposits and a client alone\<close>

lemma numeric_14_2_examples:
  "numeric_14_2 (1 / 1000) = 0" "numeric_14_2 (1 / 100) = 1"
  "numeric_14_2 (617 / 50) = 1234" "numeric_14_2 1000000000000 = 100000000000000"
  by code_simp+

lemma numeric_14_2_exact:
  assumes "of_int \<lfloor>100 * q\<rfloor> = 100 * q" "0 \<le> q"
  shows "rat_of_int (numeric_14_2 q) = 100 * q"
proof -
  define m where "m = \<lfloor>100 * q\<rfloor>"
  from assms(1) have q: "100 * q = rat_of_int m" unfolding m_def by (rule sym)
  have "\<lfloor>rat_of_int m + 1 / 2\<rfloor> = m" by linarith
  with assms(2) q show ?thesis by (simp add: numeric_14_2_def)
qed

lemmas decimal_defs = decimal_env_def decimal_body_def demo_defs

lemma account_exists_committed:
  "tables d' = committed E d ty n b src dst rows \<Longrightarrow> account_exists d' a = account_exists d a"
  by (simp add: account_exists_def committed_def)

lemma post_deposits_step:
  assumes "\<forall>s. \<not> rejects E s" "accepted_single E b a n" "account_exists d a"
  shows "account_exists (snd (post_deposits E b d)) a \<and>
     select_balance a (tables (snd (post_deposits E b d))) =
       select_balance a (tables d) + to_numeric E n"
proof -
  have tb: "tables (snd (post_deposits E b d)) =
      committed E d ''deposit'' n b None (Some a) [(transactions_id_seq d, a, ''credit'', n)]"
    by (simp add: post_deposits_accepted [OF assms(2)] deposit_succeeds [OF assms(1,3)])
  from account_exists_committed [OF tb] assms(3) show ?thesis
    by (simp add: tb select_balance_committed_credit)
qed

lemma repeated_deposits:
  assumes "\<forall>s. \<not> rejects E s" "accepted_single E b a n"
  shows "account_exists d a \<Longrightarrow>
     account_exists (run E (replicate k (Deposit b)) d) a \<and>
     select_balance a (tables (run E (replicate k (Deposit b)) d)) =
       select_balance a (tables d) + int k * to_numeric E n"
proof (induction k arbitrary: d)
  case 0
  then show ?case by simp
next
  case (Suc k)
  note step = post_deposits_step [OF assms Suc.prems]
  from step have ex: "account_exists (snd (post_deposits E b d)) a" by simp
  from Suc.IH [OF ex] step show ?case
    by (simp add: algebra_simps)
qed

lemmas client_defs = withdrawal_alone_def withdrawals_overlapping_def
  withdrawal_steps_2_to_6_def withdrawal_step_7_def client_query_def client_view_def
  no_rows_def

lemma withdrawal_alone_is_route:
  assumes "\<forall>s. \<not> rejects E s" "accepted_single E b a n" "pending d = None" "wf_db d"
  shows "withdrawal_alone E a n b d = post_withdrawals E b d"
proof (cases "select_account_id a (tables d) = []")
  case True
  with assms(1,3) show ?thesis
    by (simp add: post_withdrawals_accepted [OF assms(2)] withdrawal_try_def
        query_accepted and_then_def view_def client_defs Let_def)
next
  case False
  have old: "map (set_completed (transactions_id_seq d)) (transactions (tables d)) =
      transactions (tables d)"
    using assms(4) by (intro map_idI) (auto simp: wf_db_def set_completed_def)
  from False assms(1,3) old show ?thesis
    by (simp add: post_withdrawals_accepted [OF assms(2)] withdrawal_try_def
        query_accepted and_then_def view_def write_store_def client_defs Let_def
        select_balance_def entries_of_def set_completed_def)
qed

section \<open>The worked example\<close>

lemma demo_accepts: "\<forall>s. \<not> rejects demo_env s"
  by (simp add: demo_env_def)

lemma demo_wf: "wf_db demo_db"
  by (simp add: wf_db_def demo_defs)

lemma demo_exists: "account_exists demo_db a = (a = 1 \<or> a = 2)"
  by (auto simp: account_exists_def demo_defs)

lemma demo_balance: "select_balance 1 (tables demo_db) = 10000"
  by (simp add: select_balance_def sql_sum_def coalesce_def entries_of_def
      signed_amount_def demo_defs)

lemma demo_double_entry: "double_entry (tables demo_db)"
  by (simp add: double_entry_def demo_defs)

section \<open>Missing accounts\<close>

text \<open>
  C8. When the store accepts every statement and the request passes validation, a
  deposit or a withdrawal on an account id that no account has, and a transfer of which
  the source or the destination does not exist, is answered with 404 (AccountNotFound).
  The statements sent are BEGIN, the existence check and ROLLBACK, so the opened
  transaction is aborted; the relations and the sequences are as before. A transfer
  makes a single check, \<^verbatim>\<open>id = ANY([sourceId, destId])\<close>, for both accounts.
\<close>

theorem missing_account_is_not_found:
  assumes "\<forall>s. \<not> rejects E s" and "wf_db d"
  shows
    "(accepted_single E b a n \<and> \<not> account_exists d a \<longrightarrow>
        post_deposits E b d =
          (message 404 ''Account not found'',
           d\<lparr>pending := None, sent := sent d @ [Begin, Select_account_id a, Rollback]\<rparr>) \<and>
        post_withdrawals E b d =
          (message 404 ''Account not found'',
           d\<lparr>pending := None, sent := sent d @ [Begin, Select_account_id a, Rollback]\<rparr>)) \<and>
     (accepted_transfer E b s t n \<and> (\<not> account_exists d s \<or> \<not> account_exists d t) \<longrightarrow>
        post_transfers E b d =
          (message 404 ''One or both accounts not found'',
           d\<lparr>pending := None,
             sent := sent d @ [Begin, Select_account_ids [s, t], Rollback]\<rparr>))"
proof (intro conjI impI)
  assume h: "accepted_single E b a n \<and> \<not> account_exists d a"
  then have acc: "accepted_single E b a n" and nex: "\<not> account_exists d a" by simp_all
  show "post_deposits E b d =
      (message 404 ''Account not found'',
       d\<lparr>pending := None, sent := sent d @ [Begin, Select_account_id a, Rollback]\<rparr>)"
    by (simp add: post_deposits_accepted [OF acc] deposit_not_found [OF assms(1) nex])
  show "post_withdrawals E b d =
      (message 404 ''Account not found'',
       d\<lparr>pending := None, sent := sent d @ [Begin, Select_account_id a, Rollback]\<rparr>)"
    by (simp add: post_withdrawals_accepted [OF acc] withdrawal_not_found [OF assms(1) nex])
next
  assume h: "accepted_transfer E b s t n \<and> (\<not> account_exists d s \<or> \<not> account_exists d t)"
  then have acc: "accepted_transfer E b s t n"
    and nex: "\<not> account_exists d s \<or> \<not> account_exists d t" by simp_all
  from acc have ne: "s \<noteq> t" by (simp add: accepted_transfer_def)
  show "post_transfers E b d =
      (message 404 ''One or both accounts not found'',
       d\<lparr>pending := None, sent := sent d @ [Begin, Select_account_ids [s, t], Rollback]\<rparr>)"
    by (simp add: post_transfers_accepted [OF acc]
        transfer_not_found [OF assms(1) assms(2) ne nex])
qed

theorem missing_account_is_not_found_witness:
  "(\<forall>s. \<not> rejects demo_env s) \<and> wf_db demo_db \<and>
   accepted_single demo_env (single_body 7 60) 7 (Fin 60) \<and> \<not> account_exists demo_db 7 \<and>
   fst (post_deposits demo_env (single_body 7 60) demo_db) = message 404 ''Account not found'' \<and>
   tables (snd (post_deposits demo_env (single_body 7 60) demo_db)) = tables demo_db \<and>
   fst (post_withdrawals demo_env (single_body 7 60) demo_db) = message 404 ''Account not found'' \<and>
   accepted_transfer demo_env (transfer_body 1 7 60) 1 7 (Fin 60) \<and>
   post_transfers demo_env (transfer_body 1 7 60) demo_db =
     (message 404 ''One or both accounts not found'',
      demo_db\<lparr>pending := None, sent := [Begin, Select_account_ids [1, 7], Rollback]\<rparr>)"
proof -
  have h1: "accepted_single demo_env (single_body 7 60) 7 (Fin 60)"
    by (simp add: accepted_single_def demo_defs isNaN_def)
  have h2: "\<not> account_exists demo_db 7"
    by (simp add: demo_exists)
  have h3: "accepted_transfer demo_env (transfer_body 1 7 60) 1 7 (Fin 60)"
    by (simp add: accepted_transfer_def demo_defs isNaN_def)
  have h4: "sent demo_db = []"
    by (simp add: demo_db_def)
  from h1 h2 h3 h4 demo_accepts demo_wf
    missing_account_is_not_found [OF demo_accepts demo_wf,
      where b = "single_body 7 60" and a = 7 and n = "Fin 60"]
    missing_account_is_not_found [OF demo_accepts demo_wf,
      where b = "transfer_body 1 7 60" and s = 1 and t = 7 and n = "Fin 60"]
  show ?thesis by simp
qed

section \<open>Insufficient funds\<close>

text \<open>
  C1. When the store accepts every statement, a withdrawal or a transfer that passes
  validation, on accounts that exist, whose debit would bring the balance of the debited
  account below zero (the balance before, minus the amount as stored, is what the route
  recomputes after the INSERT) is answered with 422 (InsufficientFunds). The route has
  sent BEGIN, the existence check, the INSERT of the transaction row, the INSERT of the
  ledger rows, the balance query and then ROLLBACK: no transaction is left open, the
  rows written in the attempt are gone, and the committed relations are exactly those
  before the call, so the account has as many entries as before. Only the two sequences
  have advanced.
\<close>

theorem insufficient_funds_rolls_back:
  assumes "\<forall>s. \<not> rejects E s" and "wf_db d"
  shows
    "(accepted_single E b a n \<and> account_exists d a \<and>
      select_balance a (tables d) - to_numeric E n < 0 \<longrightarrow>
        post_withdrawals E b d =
          (message 422 ''Insufficient funds'',
           d\<lparr>pending := None,
             transactions_id_seq := transactions_id_seq d + 1,
             ledger_entries_id_seq := ledger_entries_id_seq d + 1,
             sent := sent d @
               [Begin, Select_account_id a,
                Insert_transaction ''withdrawal'' n (currency b) (Some a) None
                  (or_null (description b)),
                Insert_ledger_entries [(transactions_id_seq d, a, ''debit'', n)],
                Select_balance a, Rollback]\<rparr>) \<and>
        tables (snd (post_withdrawals E b d)) = tables d \<and>
        pending (snd (post_withdrawals E b d)) = None \<and>
        length (entries_of (tables (snd (post_withdrawals E b d))) a) =
          length (entries_of (tables d) a)) \<and>
     (accepted_transfer E b s t n \<and> account_exists d s \<and> account_exists d t \<and>
      select_balance s (tables d) - to_numeric E n < 0 \<longrightarrow>
        post_transfers E b d =
          (message 422 ''Insufficient funds'',
           d\<lparr>pending := None,
             transactions_id_seq := transactions_id_seq d + 1,
             ledger_entries_id_seq := ledger_entries_id_seq d + 2,
             sent := sent d @
               [Begin, Select_account_ids [s, t],
                Insert_transaction ''transfer'' n (currency b) (Some s) (Some t)
                  (or_null (description b)),
                Insert_ledger_entries [(transactions_id_seq d, s, ''debit'', n),
                   (transactions_id_seq d, t, ''credit'', n)],
                Select_balance s, Rollback]\<rparr>) \<and>
        tables (snd (post_transfers E b d)) = tables d \<and>
        pending (snd (post_transfers E b d)) = None \<and>
        length (entries_of (tables (snd (post_transfers E b d))) s) =
          length (entries_of (tables d) s))"
proof (intro conjI impI)
  assume h: "accepted_single E b a n \<and> account_exists d a \<and>
      select_balance a (tables d) - to_numeric E n < 0"
  then have acc: "accepted_single E b a n" and ex: "account_exists d a"
    and neg: "select_balance a (tables d) - to_numeric E n < 0" by simp_all
  note out = post_withdrawals_accepted [OF acc, of d]
    withdrawal_insufficient [OF assms(1) ex neg, of b]
  show "post_withdrawals E b d =
          (message 422 ''Insufficient funds'',
           d\<lparr>pending := None,
             transactions_id_seq := transactions_id_seq d + 1,
             ledger_entries_id_seq := ledger_entries_id_seq d + 1,
             sent := sent d @
               [Begin, Select_account_id a,
                Insert_transaction ''withdrawal'' n (currency b) (Some a) None
                  (or_null (description b)),
                Insert_ledger_entries [(transactions_id_seq d, a, ''debit'', n)],
                Select_balance a, Rollback]\<rparr>)"
    by (simp add: out)
  show tb: "tables (snd (post_withdrawals E b d)) = tables d"
    by (simp add: out)
  show "pending (snd (post_withdrawals E b d)) = None"
    by (simp add: out)
  show "length (entries_of (tables (snd (post_withdrawals E b d))) a) =
      length (entries_of (tables d) a)"
    by (simp add: tb)
next
  assume h: "accepted_transfer E b s t n \<and> account_exists d s \<and> account_exists d t \<and>
      select_balance s (tables d) - to_numeric E n < 0"
  then have acc: "accepted_transfer E b s t n" and ex: "account_exists d s" "account_exists d t"
    and neg: "select_balance s (tables d) - to_numeric E n < 0" by simp_all
  from acc have ne: "s \<noteq> t" by (simp add: accepted_transfer_def)
  note out = post_transfers_accepted [OF acc, of d]
    transfer_insufficient [OF assms(1) assms(2) ne ex neg, of b]
  show "post_transfers E b d =
          (message 422 ''Insufficient funds'',
           d\<lparr>pending := None,
             transactions_id_seq := transactions_id_seq d + 1,
             ledger_entries_id_seq := ledger_entries_id_seq d + 2,
             sent := sent d @
               [Begin, Select_account_ids [s, t],
                Insert_transaction ''transfer'' n (currency b) (Some s) (Some t)
                  (or_null (description b)),
                Insert_ledger_entries [(transactions_id_seq d, s, ''debit'', n),
                   (transactions_id_seq d, t, ''credit'', n)],
                Select_balance s, Rollback]\<rparr>)"
    by (simp add: out)
  show tb: "tables (snd (post_transfers E b d)) = tables d"
    by (simp add: out)
  show "pending (snd (post_transfers E b d)) = None"
    by (simp add: out)
  show "length (entries_of (tables (snd (post_transfers E b d))) s) =
      length (entries_of (tables d) s)"
    by (simp add: tb)
qed

theorem insufficient_funds_rolls_back_witness:
  "(\<forall>s. \<not> rejects demo_env s) \<and> wf_db demo_db \<and>
   accepted_single demo_env (single_body 1 150) 1 (Fin 150) \<and>
   accepted_transfer demo_env (transfer_body 1 2 150) 1 2 (Fin 150) \<and>
   account_exists demo_db 1 \<and> account_exists demo_db 2 \<and>
   select_balance 1 (tables demo_db) - to_numeric demo_env (Fin 150) < 0 \<and>
   fst (post_withdrawals demo_env (single_body 1 150) demo_db) =
     message 422 ''Insufficient funds'' \<and>
   tables (snd (post_withdrawals demo_env (single_body 1 150) demo_db)) = tables demo_db \<and>
   pending (snd (post_withdrawals demo_env (single_body 1 150) demo_db)) = None \<and>
   sent (snd (post_withdrawals demo_env (single_body 1 150) demo_db)) =
     [Begin, Select_account_id 1,
      Insert_transaction ''withdrawal'' (Fin 150) (JStr ''INR'') (Some 1) None None,
      Insert_ledger_entries [(2, 1, ''debit'', Fin 150)], Select_balance 1, Rollback] \<and>
   length (entries_of (tables (snd (post_withdrawals demo_env (single_body 1 150) demo_db))) 1) = 1 \<and>
   fst (post_transfers demo_env (transfer_body 1 2 150) demo_db) =
     message 422 ''Insufficient funds'' \<and>
   tables (snd (post_transfers demo_env (transfer_body 1 2 150) demo_db)) = tables demo_db \<and>
   pending (snd (post_transfers demo_env (transfer_body 1 2 150) demo_db)) = None \<and>
   length (entries_of (tables (snd (post_transfers demo_env (transfer_body 1 2 150) demo_db))) 1) = 1"
proof -
  have h1: "accepted_single demo_env (single_body 1 150) 1 (Fin 150)"
    by (simp add: accepted_single_def demo_defs isNaN_def)
  have h2: "accepted_transfer demo_env (transfer_body 1 2 150) 1 2 (Fin 150)"
    by (simp add: accepted_transfer_def demo_defs isNaN_def)
  have h3: "account_exists demo_db 1" "account_exists demo_db 2"
    by (simp_all add: demo_exists)
  have h4: "select_balance 1 (tables demo_db) - to_numeric demo_env (Fin 150) < 0"
    by (simp add: demo_balance) (simp add: demo_env_def)
  have h5: "length (entries_of (tables demo_db) 1) = 1"
    by (simp add: entries_of_def demo_defs)
  have h6: "sent demo_db = []" "transactions_id_seq demo_db = 2"
    "currency (single_body 1 150) = JStr ''INR''"
    "or_null (description (single_body 1 150)) = None"
    by (simp_all add: demo_defs or_null_def)
  from h1 h2 h3 h4 h5 h6 demo_accepts demo_wf
    insufficient_funds_rolls_back [OF demo_accepts demo_wf,
      where b = "single_body 1 150" and a = 1 and n = "Fin 150"]
    insufficient_funds_rolls_back [OF demo_accepts demo_wf,
      where b = "transfer_body 1 2 150" and s = 1 and t = 2 and n = "Fin 150"]
  show ?thesis by simp
qed

section \<open>Deposits\<close>

text \<open>
  Three deposits into account 1, which holds 100.00. The answer to a successful deposit
  of 5.00 holds the transaction id, the status, the account id, the amount and the
  currency, and no field for the new balance, while the balance becomes 105.00. A
  deposit of 0.001 passes validation and succeeds, and the balance stays 100.00: the
  column keeps 0.00 of it. A deposit of 1000000000000 passes validation, the store
  rejects its INSERT (the amount overflows the column), and the answer is 500.
\<close>

theorem deposit_answer_carries_no_balance:
  "fst (post_deposits demo_env (single_body 1 5) demo_db) =
     \<lparr>status_code = 201,
      json = [(''transactionId'', RNum 2), (''status'', RStr ''completed''),
              (''accountId'', RNum 1), (''amount'', RFixed2 (Fin 5)),
              (''currency'', RJs (JStr ''INR''))]\<rparr> \<and>
   select_balance 1 (tables demo_db) = 10000 \<and>
   select_balance 1 (tables (snd (post_deposits demo_env (single_body 1 5) demo_db))) = 10500 \<and>
   map_of (json (fst (post_deposits demo_env (single_body 1 5) demo_db))) ''newBalance'' = None \<and>
   accepted_single decimal_env (decimal_body 1 (1 / 1000)) 1 (Fin (1 / 1000)) \<and>
   status_code (fst (post_deposits decimal_env (decimal_body 1 (1 / 1000)) demo_db)) = 201 \<and>
   select_balance 1 (tables (snd (post_deposits decimal_env (decimal_body 1 (1 / 1000))
     demo_db))) = 10000 \<and>
   accepted_single decimal_env (single_body 1 1000000000000) 1 (Fin 1000000000000) \<and>
   rejects decimal_env (Insert_transaction ''deposit'' (Fin 1000000000000) (JStr ''INR'') None
     (Some 1) None) \<and>
   fst (post_deposits decimal_env (single_body 1 1000000000000) demo_db) =
     message 500 ''Internal server error'' \<and>
   select_balance 1 (tables (snd (post_deposits decimal_env (single_body 1 1000000000000)
     demo_db))) = 10000"
  by (simp add: run_defs engine_defs decimal_defs accepted_single_def numeric_14_2_examples)

text \<open>
  C4, as amended. A deposit that passes validation, of a positive amount A that has at
  most two fractional digits, into an account that exists, when the store accepts the
  statements of the route, succeeds with 201; the answer holds the transaction id, the
  status \<^verbatim>\<open>completed\<close>, the account id, the amount and the currency, and no balance.
  After the commit the balance of the account, the sum over its entries, is exactly the
  balance before plus A.
\<close>

theorem deposit_adds_amount_to_balance:
  assumes "\<forall>s. \<not> rejects E s" and "accepted_single E b a (Fin q)"
    and "account_exists d a" and "to_numeric E (Fin q) = numeric_14_2 q"
    and "of_int \<lfloor>100 * q\<rfloor> = 100 * q"
  shows "fst (post_deposits E b d) =
       \<lparr>status_code = 201,
        json = [(''transactionId'', RNum (transactions_id_seq d)),
                (''status'', RStr ''completed''),
                (''accountId'', RNum a),
                (''amount'', RFixed2 (Fin q)),
                (''currency'', RJs (currency b))]\<rparr> \<and>
     rat_of_int (select_balance a (tables (snd (post_deposits E b d)))) =
       rat_of_int (select_balance a (tables d)) + 100 * q"
proof -
  from assms(2) have "0 \<le> q" by (simp add: accepted_single_def)
  from numeric_14_2_exact [OF assms(5) this] assms(4)
  have "rat_of_int (to_numeric E (Fin q)) = 100 * q" by simp
  moreover have "select_balance a (tables (snd (post_deposits E b d))) =
       select_balance a (tables d) + to_numeric E (Fin q)"
    using post_deposits_step [OF assms(1,2,3)] by simp
  ultimately show ?thesis
    by (simp add: post_deposits_accepted [OF assms(2)] deposit_succeeds [OF assms(1,3)])
qed

theorem deposit_adds_amount_to_balance_witness:
  "(\<forall>s. \<not> rejects (decimal_env\<lparr>rejects := (\<lambda>s. False)\<rparr>) s) \<and>
   accepted_single (decimal_env\<lparr>rejects := (\<lambda>s. False)\<rparr>) (decimal_body 1 (617 / 50)) 1
     (Fin (617 / 50)) \<and>
   account_exists demo_db 1 \<and>
   to_numeric (decimal_env\<lparr>rejects := (\<lambda>s. False)\<rparr>) (Fin (617 / 50)) =
     numeric_14_2 (617 / 50) \<and>
   rat_of_int \<lfloor>100 * (617 / 50 :: rat)\<rfloor> = 100 * (617 / 50) \<and>
   status_code (fst (post_deposits (decimal_env\<lparr>rejects := (\<lambda>s. False)\<rparr>)
     (decimal_body 1 (617 / 50)) demo_db)) = 201 \<and>
   select_balance 1 (tables (snd (post_deposits (decimal_env\<lparr>rejects := (\<lambda>s. False)\<rparr>)
     (decimal_body 1 (617 / 50)) demo_db))) = 11234"
proof -
  let ?E = "decimal_env\<lparr>rejects := (\<lambda>s. False)\<rparr>"
  have h1: "\<forall>s. \<not> rejects ?E s" by simp
  have h2: "accepted_single ?E (decimal_body 1 (617 / 50)) 1 (Fin (617 / 50))"
    by (simp add: accepted_single_def decimal_defs isNaN_def)
  have h3: "account_exists demo_db 1" by (simp add: demo_exists)
  have h4: "to_numeric ?E (Fin (617 / 50)) = numeric_14_2 (617 / 50)"
    by (simp add: decimal_env_def)
  have h5: "rat_of_int \<lfloor>100 * (617 / 50 :: rat)\<rfloor> = 100 * (617 / 50)" by simp
  from deposit_adds_amount_to_balance [OF h1 h2 h3 h4 h5] demo_balance
  have "status_code (fst (post_deposits ?E (decimal_body 1 (617 / 50)) demo_db)) = 201"
    and "rat_of_int (select_balance 1 (tables (snd (post_deposits ?E
      (decimal_body 1 (617 / 50)) demo_db)))) = rat_of_int 11234"
    by simp_all
  with h1 h2 h3 h4 h5 show ?thesis by simp
qed

section \<open>Amounts\<close>

text \<open>
  The routes do not handle an amount as a decimal of two fractional digits: they read
  it with \<^verbatim>\<open>parseFloat\<close> and send that number to the store. A deposit of 0.001 is
  accepted, its INSERT statements carry the number 0.001, the answer shows it through
  \<^verbatim>\<open>toFixed(2)\<close>, and the ledger row holds 0.00.
\<close>

theorem amounts_reach_the_store_as_doubles:
  "parseFloat decimal_env (amount (decimal_body 1 (1 / 1000))) = Fin (1 / 1000) \<and>
   to_numeric decimal_env (Fin (1 / 1000)) = 0 \<and>
   fst (post_deposits decimal_env (decimal_body 1 (1 / 1000)) demo_db) =
     \<lparr>status_code = 201,
      json = [(''transactionId'', RNum 2), (''status'', RStr ''completed''),
              (''accountId'', RNum 1), (''amount'', RFixed2 (Fin (1 / 1000))),
              (''currency'', RJs (JStr ''INR''))]\<rparr> \<and>
   sent (snd (post_deposits decimal_env (decimal_body 1 (1 / 1000)) demo_db)) =
     [Begin, Select_account_id 1,
      Insert_transaction ''deposit'' (Fin (1 / 1000)) (JStr ''INR'') None (Some 1) None,
      Insert_ledger_entries [(2, 1, ''credit'', Fin (1 / 1000))],
      Update_completed 2, Commit] \<and>
   map entry_amount (entries_of (tables (snd (post_deposits decimal_env
     (decimal_body 1 (1 / 1000)) demo_db))) 1) = [10000, 0]"
  by (simp add: run_defs engine_defs decimal_defs numeric_14_2_examples)

text \<open>
  C5, as amended. In the store an amount is a fixed-point decimal of two fractional
  digits, a whole number of hundredths, and a balance is the store's sum of such
  amounts, so accumulation is exact: when the store accepts every statement, \<open>k\<close>
  deposits of a request that passes validation into an account that exists add exactly
  \<open>k\<close> times the amount the store keeps, and 10,000 deposits of 0.01 into an empty
  account give exactly 100.00. The routes themselves read the amount with
  \<^verbatim>\<open>parseFloat\<close> and pass that number on.
\<close>

theorem repeated_deposits_accumulate_exactly:
  assumes "\<forall>s. \<not> rejects E s" and "accepted_single E b a n" and "account_exists d a"
  shows "select_balance a (tables (run E (replicate k (Deposit b)) d)) =
     select_balance a (tables d) + int k * to_numeric E n"
  using repeated_deposits [OF assms(1,2) assms(3)] by simp

theorem repeated_deposits_accumulate_exactly_witness:
  "(\<forall>s. \<not> rejects (decimal_env\<lparr>rejects := (\<lambda>s. False)\<rparr>) s) \<and>
   accepted_single (decimal_env\<lparr>rejects := (\<lambda>s. False)\<rparr>) (decimal_body 2 (1 / 100)) 2
     (Fin (1 / 100)) \<and>
   account_exists demo_db 2 \<and>
   select_balance 2 (tables demo_db) = 0 \<and>
   to_numeric (decimal_env\<lparr>rejects := (\<lambda>s. False)\<rparr>) (Fin (1 / 100)) = 1 \<and>
   select_balance 2 (tables (run (decimal_env\<lparr>rejects := (\<lambda>s. False)\<rparr>)
     (replicate 10000 (Deposit (decimal_body 2 (1 / 100)))) demo_db)) = 10000"
proof -
  let ?E = "decimal_env\<lparr>rejects := (\<lambda>s. False)\<rparr>"
  have h1: "\<forall>s. \<not> rejects ?E s" by simp
  have h2: "accepted_single ?E (decimal_body 2 (1 / 100)) 2 (Fin (1 / 100))"
    by (simp add: accepted_single_def decimal_defs isNaN_def)
  have h3: "account_exists demo_db 2" by (simp add: demo_exists)
  have h4: "select_balance 2 (tables demo_db) = 0"
    by (simp add: select_balance_def sql_sum_def coalesce_def entries_of_def demo_defs)
  have h5: "to_numeric ?E (Fin (1 / 100)) = 1"
    by (simp add: decimal_env_def numeric_14_2_examples)
  from repeated_deposits_accumulate_exactly [OF h1 h2 h3, of 10000] h4 h5
  have "select_balance 2 (tables (run ?E
     (replicate 10000 (Deposit (decimal_body 2 (1 / 100)))) demo_db)) = 10000"
    by simp
  with h1 h2 h3 h4 h5 show ?thesis by simp
qed

section \<open>The reported balance\<close>

text \<open>
  C2. After any sequence of requests, the balance that \<^verbatim>\<open>GET /accounts/:id\<close> reports
  for an account is the sum of the amounts of its credit entries minus the sum of the
  amounts of its debit entries, and 0 when the account has no entry; the route answers
  200 for every account that exists when the store accepts its statements. The balance
  is computed from \<^verbatim>\<open>ledger_entries\<close> alone: the account row has no balance field.
\<close>

theorem reported_balance_is_credits_minus_debits:
  "(status_code (fst (get_account E v (run E rs d))) = 200 \<longrightarrow>
      (\<exists>a. parseInt E v = Some a \<and> account_exists (run E rs d) a \<and>
         map_of (json (fst (get_account E v (run E rs d)))) ''balance'' =
           Some (RNumeric (credit_total (tables (run E rs d)) a -
                           debit_total (tables (run E rs d)) a)) \<and>
         (entries_of (tables (run E rs d)) a = [] \<longrightarrow>
            map_of (json (fst (get_account E v (run E rs d)))) ''balance'' =
              Some (RNumeric 0)))) \<and>
   ((\<forall>s. \<not> rejects E s) \<and> parseInt E v = Some a \<and> account_exists (run E rs d) a \<longrightarrow>
      status_code (fst (get_account E v (run E rs d))) = 200)"
proof (intro conjI impI)
  assume ok: "status_code (fst (get_account E v (run E rs d))) = 200"
  from get_account_ok [OF ok] obtain a where
    a: "parseInt E v = Some a" "account_exists (run E rs d) a"
      "map_of (json (fst (get_account E v (run E rs d)))) ''balance'' =
         Some (RNumeric (select_balance a (tables (run E rs d))))" by blast
  have "entries_of (tables (run E rs d)) a = [] \<longrightarrow>
      select_balance a (tables (run E rs d)) = 0"
    by (simp add: select_balance_sum)
  with a show "\<exists>a. parseInt E v = Some a \<and> account_exists (run E rs d) a \<and>
         map_of (json (fst (get_account E v (run E rs d)))) ''balance'' =
           Some (RNumeric (credit_total (tables (run E rs d)) a -
                           debit_total (tables (run E rs d)) a)) \<and>
         (entries_of (tables (run E rs d)) a = [] \<longrightarrow>
            map_of (json (fst (get_account E v (run E rs d)))) ''balance'' =
              Some (RNumeric 0))"
    by (auto simp: select_balance_credit_debit)
next
  assume "(\<forall>s. \<not> rejects E s) \<and> parseInt E v = Some a \<and> account_exists (run E rs d) a"
  then show "status_code (fst (get_account E v (run E rs d))) = 200"
    by (auto intro: get_account_found)
qed

theorem reported_balance_is_credits_minus_debits_witness:
  "(\<forall>s. \<not> rejects demo_env s) \<and> parseInt demo_env (JNum (Fin 1)) = Some 1 \<and>
   account_exists (run demo_env [Deposit (single_body 1 25), Withdrawal (single_body 1 60)]
     demo_db) 1 \<and>
   status_code (fst (get_account demo_env (JNum (Fin 1))
     (run demo_env [Deposit (single_body 1 25), Withdrawal (single_body 1 60)] demo_db))) = 200 \<and>
   credit_total (tables (run demo_env [Deposit (single_body 1 25), Withdrawal (single_body 1 60)]
     demo_db)) 1 = 12500 \<and>
   debit_total (tables (run demo_env [Deposit (single_body 1 25), Withdrawal (single_body 1 60)]
     demo_db)) 1 = 6000 \<and>
   map_of (json (fst (get_account demo_env (JNum (Fin 1))
     (run demo_env [Deposit (single_body 1 25), Withdrawal (single_body 1 60)] demo_db))))
     ''balance'' = Some (RNumeric 6500) \<and>
   entries_of (tables demo_db) 2 = [] \<and>
   map_of (json (fst (get_account demo_env (JNum (Fin 2)) (run demo_env [] demo_db))))
     ''balance'' = Some (RNumeric 0)"
proof -
  let ?d = "run demo_env [Deposit (single_body 1 25), Withdrawal (single_body 1 60)] demo_db"
  have h1: "parseInt demo_env (JNum (Fin 1)) = Some 1" "parseInt demo_env (JNum (Fin 2)) = Some 2"
    by (simp_all add: demo_env_def)
  have h2: "account_exists ?d 1"
    by (simp add: run_defs engine_defs demo_defs account_exists_def)
  have h3: "credit_total (tables ?d) 1 = 12500" "debit_total (tables ?d) 1 = 6000"
    by (simp_all add: run_defs engine_defs demo_defs credit_total_def debit_total_def)
  have h4: "entries_of (tables demo_db) 2 = []" "account_exists demo_db 2"
    by (simp_all add: entries_of_def demo_defs account_exists_def)
  from h1 h2 h3 h4 demo_accepts
    reported_balance_is_credits_minus_debits [of demo_env "JNum (Fin 1)"
      "[Deposit (single_body 1 25), Withdrawal (single_body 1 60)]" demo_db 1]
    reported_balance_is_credits_minus_debits [of demo_env "JNum (Fin 2)" "[]" demo_db 2]
  show ?thesis by auto
qed

section \<open>Double entry\<close>

text \<open>
  C3. A transfer answered with 201 has committed one transaction row of type
  \<^verbatim>\<open>transfer\<close> and exactly two ledger rows that carry its transaction id: a debit
  against the source and a credit against the destination, of the same amount. A
  transfer answered otherwise has committed no ledger row, so both legs are written or
  neither. In a store where every transfer transaction has exactly this pair of
  entries, it still has after any sequence of requests.
\<close>

theorem transfer_writes_both_legs_or_none:
  assumes "wf_db d" and "double_entry (tables d)"
  shows
    "double_entry (tables (run E rs d)) \<and>
     (status_code (fst (post_transfers E b d)) \<noteq> 201 \<longrightarrow>
        ledger_entries (tables (snd (post_transfers E b d))) = ledger_entries (tables d)) \<and>
     (status_code (fst (post_transfers E b d)) = 201 \<longrightarrow>
        (\<exists>s t. parseInt E (sourceAccountId b) = Some s \<and>
           parseInt E (destinationAccountId b) = Some t \<and> s \<noteq> t \<and>
           transactions (tables (snd (post_transfers E b d))) = transactions (tables d) @
             [\<lparr>tx_id = transactions_id_seq d, tx_type = ''transfer'',
               tx_amount = to_numeric E (parseFloat E (amount b)),
               tx_currency = currency b, source_account_id = Some s,
               destination_account_id = Some t, tx_status = ''completed'',
               tx_description = or_null (description b)\<rparr>] \<and>
           ledger_entries (tables (snd (post_transfers E b d))) = ledger_entries (tables d) @
             [\<lparr>entry_id = ledger_entries_id_seq d, transaction_id = transactions_id_seq d,
               account_id = s, entry_type = ''debit'',
               entry_amount = to_numeric E (parseFloat E (amount b))\<rparr>,
              \<lparr>entry_id = ledger_entries_id_seq d + 1, transaction_id = transactions_id_seq d,
               account_id = t, entry_type = ''credit'',
               entry_amount = to_numeric E (parseFloat E (amount b))\<rparr>] \<and>
           legs (tables (snd (post_transfers E b d))) (transactions_id_seq d) =
             [\<lparr>entry_id = ledger_entries_id_seq d, transaction_id = transactions_id_seq d,
               account_id = s, entry_type = ''debit'',
               entry_amount = to_numeric E (parseFloat E (amount b))\<rparr>,
              \<lparr>entry_id = ledger_entries_id_seq d + 1, transaction_id = transactions_id_seq d,
               account_id = t, entry_type = ''credit'',
               entry_amount = to_numeric E (parseFloat E (amount b))\<rparr>]))"
proof (intro conjI impI)
  show "double_entry (tables (run E rs d))"
    using assms by (rule double_entry_run)
next
  assume "status_code (fst (post_transfers E b d)) \<noteq> 201"
  with post_transfers_outcome [of d E b]
  show "ledger_entries (tables (snd (post_transfers E b d))) = ledger_entries (tables d)"
    by (auto simp: unchanged_def commits_def)
next
  let ?n = "parseFloat E (amount b)"
  let ?k = "transactions_id_seq d"
  assume "status_code (fst (post_transfers E b d)) = 201"
  with post_transfers_outcome [of d E b] obtain s t where
    st: "parseInt E (sourceAccountId b) = Some s" "parseInt E (destinationAccountId b) = Some t"
      "s \<noteq> t"
    and tb: "tables (snd (post_transfers E b d)) =
      committed E d ''transfer'' ?n b (Some s) (Some t) [(?k, s, ''debit'', ?n), (?k, t, ''credit'', ?n)]"
    by (auto simp: unchanged_def commits_def)
  have rows: "\<forall>row \<in> set [(?k, s, ''debit'', ?n), (?k, t, ''credit'', ?n)]. fst row = ?k"
    by simp
  note tx = committed_transactions [OF assms(1), of E "''transfer''" ?n b "Some s" "Some t"
      "[(?k, s, ''debit'', ?n), (?k, t, ''credit'', ?n)]"]
  note lg = legs_committed_new [OF assms(1) rows, of E "''transfer''" ?n b "Some s" "Some t"]
  have le: "ledger_entries (committed E d ''transfer'' ?n b (Some s) (Some t)
        [(?k, s, ''debit'', ?n), (?k, t, ''credit'', ?n)]) =
      ledger_entries (tables d) @ mk_entries E (ledger_entries_id_seq d)
        [(?k, s, ''debit'', ?n), (?k, t, ''credit'', ?n)]"
    by (simp add: committed_def)
  from st tb tx lg le
  show "\<exists>s t. parseInt E (sourceAccountId b) = Some s \<and>
           parseInt E (destinationAccountId b) = Some t \<and> s \<noteq> t \<and>
           transactions (tables (snd (post_transfers E b d))) = transactions (tables d) @
             [\<lparr>tx_id = transactions_id_seq d, tx_type = ''transfer'',
               tx_amount = to_numeric E (parseFloat E (amount b)),
               tx_currency = currency b, source_account_id = Some s,
               destination_account_id = Some t, tx_status = ''completed'',
               tx_description = or_null (description b)\<rparr>] \<and>
           ledger_entries (tables (snd (post_transfers E b d))) = ledger_entries (tables d) @
             [\<lparr>entry_id = ledger_entries_id_seq d, transaction_id = transactions_id_seq d,
               account_id = s, entry_type = ''debit'',
               entry_amount = to_numeric E (parseFloat E (amount b))\<rparr>,
              \<lparr>entry_id = ledger_entries_id_seq d + 1, transaction_id = transactions_id_seq d,
               account_id = t, entry_type = ''credit'',
               entry_amount = to_numeric E (parseFloat E (amount b))\<rparr>] \<and>
           legs (tables (snd (post_transfers E b d))) (transactions_id_seq d) =
             [\<lparr>entry_id = ledger_entries_id_seq d, transaction_id = transactions_id_seq d,
               account_id = s, entry_type = ''debit'',
               entry_amount = to_numeric E (parseFloat E (amount b))\<rparr>,
              \<lparr>entry_id = ledger_entries_id_seq d + 1, transaction_id = transactions_id_seq d,
               account_id = t, entry_type = ''credit'',
               entry_amount = to_numeric E (parseFloat E (amount b))\<rparr>]"
    by simp
qed

theorem transfer_writes_both_legs_or_none_witness:
  "wf_db demo_db \<and> double_entry (tables demo_db) \<and>
   double_entry (tables (run demo_env
     [Transfer (transfer_body 1 2 60), Transfer (transfer_body 1 2 60)] demo_db)) \<and>
   status_code (fst (post_transfers demo_env (transfer_body 1 2 60) demo_db)) = 201 \<and>
   legs (tables (snd (post_transfers demo_env (transfer_body 1 2 60) demo_db))) 2 =
     [\<lparr>entry_id = 2, transaction_id = 2, account_id = 1, entry_type = ''debit'',
       entry_amount = 6000\<rparr>,
      \<lparr>entry_id = 3, transaction_id = 2, account_id = 2, entry_type = ''credit'',
       entry_amount = 6000\<rparr>] \<and>
   status_code (fst (post_transfers demo_env (transfer_body 1 2 150) demo_db)) \<noteq> 201 \<and>
   ledger_entries (tables (snd (post_transfers demo_env (transfer_body 1 2 150) demo_db))) =
     ledger_entries (tables demo_db)"
proof -
  have h1: "status_code (fst (post_transfers demo_env (transfer_body 1 2 60) demo_db)) = 201"
    by (simp add: run_defs engine_defs demo_defs)
  have h2: "status_code (fst (post_transfers demo_env (transfer_body 1 2 150) demo_db)) \<noteq> 201"
    by (simp add: run_defs engine_defs demo_defs)
  have h3: "legs (tables (snd (post_transfers demo_env (transfer_body 1 2 60) demo_db))) 2 =
     [\<lparr>entry_id = 2, transaction_id = 2, account_id = 1, entry_type = ''debit'',
       entry_amount = 6000\<rparr>,
      \<lparr>entry_id = 3, transaction_id = 2, account_id = 2, entry_type = ''credit'',
       entry_amount = 6000\<rparr>]"
    by (simp add: run_defs engine_defs demo_defs legs_def)
  from h1 h2 h3 demo_wf demo_double_entry
    transfer_writes_both_legs_or_none [OF demo_wf demo_double_entry,
      of demo_env "[Transfer (transfer_body 1 2 60), Transfer (transfer_body 1 2 60)]"
        "transfer_body 1 2 60"]
    transfer_writes_both_legs_or_none [OF demo_wf demo_double_entry,
      of demo_env "[]" "transfer_body 1 2 150"]
  show ?thesis by simp
qed

section \<open>Transaction status\<close>

text \<open>
  C6. Over any sequence of requests the transaction rows that were in the store are
  left as they are, and every row added is \<^verbatim>\<open>completed\<close>: a row is inserted as
  \<^verbatim>\<open>pending\<close> inside the open transaction and is either finalised and committed or
  rolled back, so no \<^verbatim>\<open>pending\<close> or \<^verbatim>\<open>failed\<close> row is persisted. The status
  update is sent at most once for a transaction id, and only for an id drawn during
  the sequence, never for a row that was already there.
\<close>

theorem transaction_rows_only_completed:
  assumes "wf_db d"
  shows "(\<exists>ts ss.
       transactions (tables (run E rs d)) = transactions (tables d) @ ts \<and>
       (\<forall>t \<in> set ts. tx_status t = ''completed'') \<and>
       sent (run E rs d) = sent d @ ss \<and>
       (\<forall>i. count_list ss (Update_completed i) \<le> 1 \<and>
            (Update_completed i \<in> set ss \<longrightarrow> transactions_id_seq d \<le> i))) \<and>
     ((\<forall>t \<in> set (transactions (tables d)). tx_status t = ''completed'') \<longrightarrow>
        (\<forall>t \<in> set (transactions (tables (run E rs d))). tx_status t = ''completed''))"
proof -
  from run_transactions [OF assms, of E rs] obtain ts where
    ts: "transactions (tables (run E rs d)) = transactions (tables d) @ ts"
      "\<forall>t \<in> set ts. tx_status t = ''completed''" by blast
  from run_updates [of E rs d] obtain ss where
    ss: "sent (run E rs d) = sent d @ ss"
      "\<forall>i. count_list ss (Update_completed i) \<le> 1 \<and>
          (Update_completed i \<in> set ss \<longrightarrow> transactions_id_seq d \<le> i)" by blast
  from ts have "(\<forall>t \<in> set (transactions (tables d)). tx_status t = ''completed'') \<longrightarrow>
      (\<forall>t \<in> set (transactions (tables (run E rs d))). tx_status t = ''completed'')"
    by auto
  with ts ss show ?thesis by blast
qed

theorem transaction_rows_only_completed_witness:
  "wf_db demo_db \<and>
   map tx_status (transactions (tables (run demo_env
     [Deposit (single_body 2 25), Transfer (transfer_body 1 2 60),
      Withdrawal (single_body 1 50)] demo_db))) =
     [''completed'', ''completed'', ''completed''] \<and>
   (\<exists>ts ss.
     transactions (tables (run demo_env
       [Deposit (single_body 2 25), Transfer (transfer_body 1 2 60),
        Withdrawal (single_body 1 50)] demo_db)) = transactions (tables demo_db) @ ts \<and>
     (\<forall>t \<in> set ts. tx_status t = ''completed'') \<and>
     sent (run demo_env
       [Deposit (single_body 2 25), Transfer (transfer_body 1 2 60),
        Withdrawal (single_body 1 50)] demo_db) = sent demo_db @ ss \<and>
     (\<forall>i. count_list ss (Update_completed i) \<le> 1 \<and>
          (Update_completed i \<in> set ss \<longrightarrow> transactions_id_seq demo_db \<le> i))) \<and>
   map tx_status (transactions (tables demo_db)) = [''completed'']"
proof -
  have h0: "\<forall>t \<in> set (transactions (tables demo_db)). tx_status t = ''completed''"
    by (simp add: demo_defs)
  have h: "map tx_status (transactions (tables (run demo_env
     [Deposit (single_body 2 25), Transfer (transfer_body 1 2 60),
      Withdrawal (single_body 1 50)] demo_db))) =
     [''completed'', ''completed'', ''completed'']"
    by (simp add: run_defs engine_defs demo_defs)
  have h1: "map tx_status (transactions (tables demo_db)) = [''completed'']"
    by (simp add: demo_defs)
  from h h0 h1 demo_wf transaction_rows_only_completed [OF demo_wf, of demo_env
     "[Deposit (single_body 2 25), Transfer (transfer_body 1 2 60),
       Withdrawal (single_body 1 50)]"]
  show ?thesis by blast
qed

section \<open>Two withdrawals at once\<close>

text \<open>
  C9. Account 1 holds 100.00 and two clients each withdraw 60.00. When both reach
  their balance check before either commits, each sees 100.00 less its own debit, both
  are answered with 201, and the committed balance is -20.00. Neither client sends a
  statement that locks the account or sets an isolation level: the statements sent are
  those listed. The balance check of the route does not keep two withdrawals at once
  from overdrawing the account.
\<close>

theorem overlapping_withdrawals_both_succeed:
  "select_balance 1 (tables demo_db) = 10000 \<and>
   withdrawals_overlapping demo_env 1 (Fin 60) (single_body 1 60) 1 (Fin 60)
       (single_body 1 60) demo_db =
     (\<lparr>status_code = 201,
       json = [(''transactionId'', RNum 2), (''status'', RStr ''completed''),
               (''accountId'', RNum 1), (''amount'', RFixed2 (Fin 60)),
               (''currency'', RJs (JStr ''INR''))]\<rparr>,
      \<lparr>status_code = 201,
       json = [(''transactionId'', RNum 3), (''status'', RStr ''completed''),
               (''accountId'', RNum 1), (''amount'', RFixed2 (Fin 60)),
               (''currency'', RJs (JStr ''INR''))]\<rparr>,
      demo_db\<lparr>tables := (tables demo_db)
          \<lparr>transactions := transactions (tables demo_db) @
             [\<lparr>tx_id = 2, tx_type = ''withdrawal'', tx_amount = 6000,
               tx_currency = JStr ''INR'', source_account_id = Some 1,
               destination_account_id = None, tx_status = ''completed'',
               tx_description = None\<rparr>,
              \<lparr>tx_id = 3, tx_type = ''withdrawal'', tx_amount = 6000,
               tx_currency = JStr ''INR'', source_account_id = Some 1,
               destination_account_id = None, tx_status = ''completed'',
               tx_description = None\<rparr>],
           ledger_entries := ledger_entries (tables demo_db) @
             [\<lparr>entry_id = 2, transaction_id = 2, account_id = 1, entry_type = ''debit'',
               entry_amount = 6000\<rparr>,
              \<lparr>entry_id = 3, transaction_id = 3, account_id = 1, entry_type = ''debit'',
               entry_amount = 6000\<rparr>]\<rparr>,
        transactions_id_seq := 4, ledger_entries_id_seq := 4,
        sent := [Begin, Select_account_id 1,
          Insert_transaction ''withdrawal'' (Fin 60) (JStr ''INR'') (Some 1) None None,
          Insert_ledger_entries [(2, 1, ''debit'', Fin 60)], Select_balance 1,
          Begin, Select_account_id 1,
          Insert_transaction ''withdrawal'' (Fin 60) (JStr ''INR'') (Some 1) None None,
          Insert_ledger_entries [(3, 1, ''debit'', Fin 60)], Select_balance 1,
          Update_completed 2, Commit, Update_completed 3, Commit]\<rparr>) \<and>
   select_balance 1 (tables (snd (snd (withdrawals_overlapping demo_env 1 (Fin 60)
       (single_body 1 60) 1 (Fin 60) (single_body 1 60) demo_db)))) = - 2000"
  by (simp add: client_defs demo_defs run_defs Let_def)

end
